theory Spec2Isabelle
  imports Complex_Main "HOL-Library.Sublist"
begin

section \<open>Data model\<close>

text \<open>
  The entities of \<^verbatim>\<open>models/product.model.ts\<close> and \<^verbatim>\<open>models/api-response.model.ts\<close>.
  JavaScript strings are modelled as lists of code units restricted to the range
  U+0000..U+00FF (every string of the seed catalogue lies in that range), so that
  \<^verbatim>\<open>.length\<close> is \<^const>\<open>length\<close>. A \<^verbatim>\<open>Date\<close> is its number of milliseconds since
  the epoch. Prices are exact rationals (NaN and the infinities are not modelled), and
  identifiers, page numbers and page sizes are integers.
\<close>

record product =
  id_p :: int
  name :: string
  description :: "string option"
  price :: rat
  category :: string
  active :: bool
  imageUrl :: "string option"
  createdAt :: int
  updatedAt :: int

text \<open>
  Whether a payload object has a property. The properties \<^verbatim>\<open>description\<close> and
  \<^verbatim>\<open>imageUrl\<close> may be absent, present with the value \<^verbatim>\<open>undefined\<close> (as the product
  form builds them from an empty field) or present with a string.
\<close>

datatype 'a optional = Absent | Present 'a

text \<open>
  \<^verbatim>\<open>CreateProduct | UpdateProduct\<close>, the argument type of \<^verbatim>\<open>validateProductData\<close>.
  For the four properties that are mandatory in \<^verbatim>\<open>Product\<close>, \<^const>\<open>None\<close> is a
  property that is absent (a mandatory property that is present with the value
  \<^verbatim>\<open>undefined\<close> or \<^verbatim>\<open>null\<close> is not modelled: stored by an update it would leave the type
  \<^verbatim>\<open>Product\<close>); for the two optional ones \<^const>\<open>Present\<close> \<^const>\<open>None\<close> is a property that
  is present and undefined.
\<close>

record productData =
  data_name :: "string option"
  data_description :: "string option optional"
  data_price :: "rat option"
  data_category :: "string option"
  data_imageUrl :: "string option optional"
  data_active :: "bool option"

record productFilter =
  filter_category :: "string option"
  minPrice :: "rat option"
  maxPrice :: "rat option"
  filter_active :: "bool option"
  search :: "string option"

record paginationParams =
  page :: "int option"
  param_pageSize :: "int option"

record 'a paginatedResponse =
  data :: "'a list"
  currentPage :: int
  pageSize :: int
  totalItems :: int
  totalPages :: int
  hasNext :: bool
  hasPrevious :: bool

record apiError =
  statusCode :: int
  message :: string
  details :: "string option"
  timestamp :: int
  path :: string

text \<open>
  What an observable of the service can fail with: a structured \<^verbatim>\<open>ApiError\<close> object,
  a plain JavaScript \<^verbatim>\<open>Error\<close> carrying its message, or the \<^verbatim>\<open>TimeoutError\<close> that the
  \<^verbatim>\<open>timeout\<close> operator of the listing view raises.
\<close>

datatype error = ApiError apiError | JsError string | TimeoutError

text \<open>
  The fields of \<^verbatim>\<open>ProductMockService\<close>: the in-memory table, the current values of the
  two \<^verbatim>\<open>BehaviorSubject\<close>s, and the identity counter.
\<close>

record state =
  mockProducts :: "product list"
  productsSubject :: "product list"
  loadingSubject :: bool
  nextId :: int

section \<open>JavaScript library functions\<close>

text \<open>\<^verbatim>\<open>Array.prototype.slice(start, end)\<close> on integer arguments.\<close>

definition js_slice :: "'a list \<Rightarrow> int \<Rightarrow> int \<Rightarrow> 'a list" where
  "js_slice xs startIndex endIndex =
     (let len = int (length xs);
          k = (if startIndex < 0 then max (len + startIndex) 0 else min startIndex len);
          final = (if endIndex < 0 then max (len + endIndex) 0 else min endIndex len)
      in take (nat (final - k)) (drop (nat k) xs))"

text \<open>\<^verbatim>\<open>Array.prototype.findIndex\<close>; \<^const>\<open>None\<close> stands for the result -1.\<close>

fun findIndex :: "('a \<Rightarrow> bool) \<Rightarrow> 'a list \<Rightarrow> nat option" where
  "findIndex P [] = None"
| "findIndex P (x # xs) =
     (if P x then Some 0 else (case findIndex P xs of None \<Rightarrow> None | Some i \<Rightarrow> Some (Suc i)))"

text \<open>\<^verbatim>\<open>Array.prototype.join(sep)\<close> on an array of strings.\<close>

fun join :: "string \<Rightarrow> string list \<Rightarrow> string" where
  "join sep [] = []"
| "join sep [x] = x"
| "join sep (x # y # ys) = x @ sep @ join sep (y # ys)"

text \<open>\<^verbatim>\<open>String.prototype.toLowerCase\<close> on the code units below U+0100.\<close>

definition toLowerCase_char :: "char \<Rightarrow> char" where
  "toLowerCase_char c =
     (let n = (of_char c :: nat)
      in if (65 \<le> n \<and> n \<le> 90) \<or> (192 \<le> n \<and> n \<le> 222 \<and> n \<noteq> 215)
         then char_of (n + 32) else c)"

definition toLowerCase :: "string \<Rightarrow> string" where
  "toLowerCase s = map toLowerCase_char s"

text \<open>
  \<^verbatim>\<open>String.prototype.trim\<close>: the white space and line terminators below U+0100 are
  TAB, LF, VT, FF, CR, SPACE and NO-BREAK SPACE.
\<close>

definition is_space :: "char \<Rightarrow> bool" where
  "is_space c = ((of_char c :: nat) \<in> {9, 10, 11, 12, 13, 32, 160})"

definition trim :: "string \<Rightarrow> string" where
  "trim s = rev (dropWhile is_space (rev (dropWhile is_space s)))"

text \<open>
  How a template literal prints an integer: its decimal digits, most significant first,
  after a minus sign when it is negative.
\<close>

definition digit_char :: "nat \<Rightarrow> char" where
  "digit_char k = char_of (of_char (CHR ''0'') + k)"

fun decimal :: "nat \<Rightarrow> string" where
  "decimal n =
     (if 10 \<le> n then decimal (n div 10) @ [digit_char (n mod 10)] else [digit_char n])"

definition number_toString :: "int \<Rightarrow> string" where
  "number_toString i = (if 0 \<le> i then decimal (nat i) else CHR ''-'' # decimal (nat (- i)))"

section \<open>The mock service\<close>

subsection \<open>The seed catalogue\<close>

definition seed1 :: product where
  "seed1 = \<lparr>
     id_p = 1,
     name = ''Notebook Dell Inspiron 15'',
     description = Some (''Notebook com processador Intel Core i5, 8GB RAM, 256GB SSD''),
     price = 3499.90,
     category = ''ELETRONICOS'',
     active = True,
     imageUrl = Some (''https://i.dell.com/is/image/DellContent/content/dam/ss2/product-images/dell-client-products/notebooks/inspiron-notebooks/15-3520/pdp/laptop-inspiron-15-3520-pdp-gallery-504x350-bk.psd?fmt=png-alpha&wid=570&hei=400''),
     createdAt = 1705314600000,
     updatedAt = 1729435500000 \<rparr>"

definition seed2 :: product where
  "seed2 = \<lparr>
     id_p = 2,
     name = ''Mouse Logitech MX Master 3'',
     description = Some (''Mouse sem fio ergon'' @ [CHR 0xF4] @ ''mico com sensor de alta precis'' @ [CHR 0xE3] @ ''o''),
     price = 449.90,
     category = ''ELETRONICOS'',
     active = True,
     imageUrl = Some (''https://m.media-amazon.com/images/I/61+OT7FPABL.jpg''),
     createdAt = 1707556500000,
     updatedAt = 1729268400000 \<rparr>"

definition seed3 :: product where
  "seed3 = \<lparr>
     id_p = 3,
     name = ''Teclado Mec'' @ [CHR 0xE2] @ ''nico Keychron K2'',
     description = Some (''Teclado mec'' @ [CHR 0xE2] @ ''nico sem fio com switches Red, RGB''),
     price = 659.90,
     category = ''ELETRONICOS'',
     active = True,
     imageUrl = Some (''https://carrefourbr.vtexassets.com/arquivos/ids/198365397/image-0.jpg''),
     createdAt = 1709636400000,
     updatedAt = 1728999000000 \<rparr>"

definition seed4 :: product where
  "seed4 = \<lparr>
     id_p = 4,
     name = ''Monitor LG UltraWide 29'' @ [CHR 0x22],
     description = Some (''Monitor IPS 29 polegadas, resolu'' @ [CHR 0xE7] @ [CHR 0xE3] @ ''o 2560x1080, 75Hz''),
     price = 1299.90,
     category = ''ELETRONICOS'',
     active = True,
     imageUrl = Some (''https://m.media-amazon.com/images/I/51mHapX90SL._AC_UF894,1000_QL80_.jpg''),
     createdAt = 1712911500000,
     updatedAt = 1728555300000 \<rparr>"

definition seed5 :: product where
  "seed5 = \<lparr>
     id_p = 5,
     name = ''Camiseta Nike Dry-Fit'',
     description = Some (''Camiseta esportiva com tecnologia de secagem r'' @ [CHR 0xE1] @ ''pida''),
     price = 129.90,
     category = ''ROUPAS'',
     active = True,
     imageUrl = Some (''https://cdn.awsli.com.br/2500x2500/1714/1714539/produto/301464319/e557ac303ce1294613d160a2305c4a7e-badvelksjs.jpeg''),
     createdAt = 1716219000000,
     updatedAt = 1728147600000 \<rparr>"

definition seed6 :: product where
  "seed6 = \<lparr>
     id_p = 6,
     name = ''Livro: Clean Code'',
     description = Some (''Guia essencial sobre boas pr'' @ [CHR 0xE1] @ ''ticas de programa'' @ [CHR 0xE7] @ [CHR 0xE3] @ ''o por Robert C. Martin''),
     price = 89.90,
     category = ''LIVROS'',
     active = True,
     imageUrl = Some (''https://media.licdn.com/dms/image/v2/C4D12AQElMcNEch38WQ/article-cover_image-shrink_720_1280/article-cover_image-shrink_720_1280/0/1645152091261?e=2147483647&v=beta&t=rHdnB7tb0gw7fc-RNB1gFelNo8sdOXdg-bx0Cu0WHnk''),
     createdAt = 1717848000000,
     updatedAt = 1727688600000 \<rparr>"

definition seed7 :: product where
  "seed7 = \<lparr>
     id_p = 7,
     name = ''Sof'' @ [CHR 0xE1] @ '' Retr'' @ [CHR 0xE1] @ ''til 3 Lugares'',
     description = Some (''Sof'' @ [CHR 0xE1] @ '' confort'' @ [CHR 0xE1] @ ''vel com tecido suede, cor cinza''),
     price = 2499.90,
     category = ''CASA'',
     active = True,
     imageUrl = Some (''https://www.camainbox.com.br/media/catalog/product/cache/0a0c65509d6052414e566f979b0217be/1/_/1_sofa_retratil_reclinavel_big_fresh_ambiente_azul_6.jpg''),
     createdAt = 1721053200000,
     updatedAt = 1727264700000 \<rparr>"

definition seed8 :: product where
  "seed8 = \<lparr>
     id_p = 8,
     name = ''Bola de Futebol Adidas'',
     description = Some (''Bola oficial para campo, tamanho padr'' @ [CHR 0xE3] @ ''o''),
     price = 199.90,
     category = ''ESPORTES'',
     active = False,
     imageUrl = Some (''https://images.tcdn.com.br/img/img_prod/734952/bola_adidas_starlancer_unissex_vermelho_e_preto_9431_1_aa90e7bcd7ea97320c54071d8cffec5a.jpeg''),
     createdAt = 1722506400000,
     updatedAt = 1726849800000 \<rparr>"

definition seedProducts :: "product list" where
  "seedProducts = [seed1, seed2, seed3, seed4, seed5, seed6, seed7, seed8]"

text \<open>
  The service as constructed: the subject starts on the table itself, the loading flag
  is off, and the next identifier is 9.
\<close>

definition init_state :: state where
  "init_state = \<lparr> mockProducts = seedProducts, productsSubject = seedProducts,
                  loadingSubject = False, nextId = 9 \<rparr>"

subsection \<open>Helpers\<close>

definition setLoading :: "bool \<Rightarrow> state \<Rightarrow> state" where
  "setLoading loading s = s\<lparr>loadingSubject := loading\<rparr>"

definition createApiError :: "int \<Rightarrow> int \<Rightarrow> string \<Rightarrow> string option \<Rightarrow> apiError" where
  "createApiError now statusCode' message' details' =
     \<lparr> statusCode = statusCode', message = message', details = details',
       timestamp = now, path = ''/api/products'' \<rparr>"

text \<open>
  \<^verbatim>\<open>throwApiError\<close> switches the loading flag off and returns an observable that fails
  with the structured error; \<open>now\<close> is the reading of the clock.
\<close>

definition throwApiError ::
  "state \<Rightarrow> int \<Rightarrow> int \<Rightarrow> string \<Rightarrow> string option \<Rightarrow> (error + 'a) \<times> state" where
  "throwApiError s now statusCode' message' details' =
     (Inl (ApiError (createApiError now statusCode' message' details')), setLoading False s)"

subsection \<open>Listing\<close>

text \<open>
  The array of filter functions that \<^verbatim>\<open>getProducts\<close> collects, in the order of the source.
  A condition such as \<^verbatim>\<open>filters?.category\<close> is false for an absent filter object, an
  absent property and the empty string.
\<close>

definition matchesSearch :: "string \<Rightarrow> product \<Rightarrow> bool" where
  "matchesSearch searchLower p =
     (sublist searchLower (toLowerCase (name p)) \<or>
      (case description p of
         None \<Rightarrow> False
       | Some d \<Rightarrow> d \<noteq> [] \<and> sublist searchLower (toLowerCase d)))"

definition filterFunctions :: "productFilter option \<Rightarrow> (product list \<Rightarrow> product list) list" where
  "filterFunctions filters =
     (case filters of
        None \<Rightarrow> []
      | Some f \<Rightarrow>
          (case filter_category f of
             None \<Rightarrow> []
           | Some c \<Rightarrow> if c = [] then [] else [filter (\<lambda>p. category p = c)]) @
          (case minPrice f of
             None \<Rightarrow> []
           | Some m \<Rightarrow> [filter (\<lambda>p. price p \<ge> m)]) @
          (case maxPrice f of
             None \<Rightarrow> []
           | Some m \<Rightarrow> [filter (\<lambda>p. price p \<le> m)]) @
          (case filter_active f of
             None \<Rightarrow> []
           | Some a \<Rightarrow> [filter (\<lambda>p. active p = a)]) @
          (case search f of
             None \<Rightarrow> []
           | Some q \<Rightarrow> if q = [] then [] else [filter (matchesSearch (toLowerCase q))]))"

definition applyFilters :: "productFilter option \<Rightarrow> product list \<Rightarrow> product list" where
  "applyFilters filters products =
     foldl (\<lambda>prods filterFn. filterFn prods) products (filterFunctions filters)"

text \<open>\<^verbatim>\<open>pagination?.page || 1\<close>: the default replaces an absent value and also 0.\<close>

definition or_default :: "int option \<Rightarrow> int \<Rightarrow> int" where
  "or_default v d = (case v of None \<Rightarrow> d | Some n \<Rightarrow> if n = 0 then d else n)"

text \<open>
  \<^verbatim>\<open>getProducts\<close>, run from the call to the emission of its observable. The exception
  thrown inside \<^verbatim>\<open>map\<close> for a page below 1 is a plain \<^verbatim>\<open>Error\<close>; it leaves the loading
  flag on, since it is raised before \<^verbatim>\<open>setLoading(false)\<close>. The guard on
  \<^verbatim>\<open>this.mockProducts\<close> not being an array never fires: the field always holds an array.
\<close>

definition getProducts ::
  "state \<Rightarrow> productFilter option \<Rightarrow> paginationParams option
     \<Rightarrow> (error + product paginatedResponse) \<times> state" where
  "getProducts s filters pagination =
     (let s1 = setLoading True s;
          filtered = applyFilters filters (mockProducts s1);
          page' = or_default (case pagination of None \<Rightarrow> None | Some pg \<Rightarrow> page pg) 1;
          pageSize' = or_default (case pagination of None \<Rightarrow> None | Some pg \<Rightarrow> param_pageSize pg) 10;
          totalItems' = int (length filtered);
          totalPages' = \<lceil>(of_int totalItems' :: rat) / of_int pageSize'\<rceil>
      in if page' < 1 then (Inl (JsError ''Page must be greater than 0''), s1)
         else
           (let startIndex = (page' - 1) * pageSize';
                endIndex = startIndex + pageSize';
                paginatedData = js_slice filtered startIndex endIndex;
                response = \<lparr> data = paginatedData, currentPage = page', pageSize = pageSize',
                             totalItems = totalItems', totalPages = totalPages',
                             hasNext = (endIndex < totalItems'), hasPrevious = (page' > 1) \<rparr>
            in (Inr response, setLoading False (s1\<lparr>productsSubject := paginatedData\<rparr>))))"

subsection \<open>Validation\<close>

definition validCategories :: "string list" where
  "validCategories = [''ELETRONICOS'', ''ROUPAS'', ''LIVROS'', ''CASA'', ''ESPORTES'', ''OUTROS'']"

text \<open>
  The four blocks of \<^verbatim>\<open>validateProductData\<close>, each giving the messages it pushes. The
  test \<^verbatim>\<open>!data.name\<close> holds for an absent name and for the empty string; the two length
  tests read \<^verbatim>\<open>data.name.length\<close>, the length of the name as given.
\<close>

definition nameErrors :: "productData \<Rightarrow> bool \<Rightarrow> string list" where
  "nameErrors d isUpdate =
     (let shouldValidateName = (if isUpdate then data_name d \<noteq> None else True)
      in if shouldValidateName then
           (case data_name d of
              None \<Rightarrow> [''Name is required'']
            | Some n \<Rightarrow>
                if n = [] \<or> length (trim n) = 0 then [''Name is required'']
                else if length n < 3 then [''Name must be at least 3 characters'']
                else if length n > 200 then [''Name must not exceed 200 characters'']
                else [])
         else [])"

definition priceErrors :: "productData \<Rightarrow> bool \<Rightarrow> string list" where
  "priceErrors d isUpdate =
     (let shouldValidatePrice = (if isUpdate then data_price d \<noteq> None else True)
      in if shouldValidatePrice then
           (case data_price d of
              None \<Rightarrow> [''Price is required'']
            | Some p \<Rightarrow>
                if p < 0 then [''Price must be greater than or equal to 0'']
                else if p > 999999.99 then [''Price must not exceed 999999.99'']
                else [])
         else [])"

definition categoryErrors :: "productData \<Rightarrow> bool \<Rightarrow> string list" where
  "categoryErrors d isUpdate =
     (let shouldValidateCategory = (if isUpdate then data_category d \<noteq> None else True)
      in if shouldValidateCategory then
           (case data_category d of
              None \<Rightarrow> [''Category is required'']
            | Some c \<Rightarrow>
                if c = [] then [''Category is required'']
                else if c \<notin> set validCategories
                  then [''Category must be one of: '' @ join '', '' validCategories]
                else [])
         else [])"

definition descriptionErrors :: "productData \<Rightarrow> string list" where
  "descriptionErrors d =
     (case data_description d of
        Present (Some s) \<Rightarrow>
          if s \<noteq> [] \<and> length s > 1000 then [''Description must not exceed 1000 characters'']
          else []
      | _ \<Rightarrow> [])"

definition validateProductData :: "productData \<Rightarrow> bool \<Rightarrow> string list" where
  "validateProductData d isUpdate =
     nameErrors d isUpdate @ priceErrors d isUpdate @ categoryErrors d isUpdate @
     descriptionErrors d"

subsection \<open>Reading and writing one product\<close>

text \<open>
  \<open>now\<close> is the reading of the clock taken by \<^verbatim>\<open>new Date()\<close>. \<^verbatim>\<open>getProductById\<close> is
  run from its call to the emission of its observable; it looks the product up at the
  call and only switches the loading flag.
\<close>

definition invalidId :: "int \<Rightarrow> bool" where
  "invalidId i = (i = 0 \<or> i < 1)"

definition notFoundDetails :: "int \<Rightarrow> string" where
  "notFoundDetails i = ''Product with ID '' @ number_toString i @ '' not found''"

definition getProductById :: "state \<Rightarrow> int \<Rightarrow> int \<Rightarrow> (error + product) \<times> state" where
  "getProductById s now i =
     (let s1 = setLoading True s
      in if invalidId i then throwApiError s1 now 400 ''Bad Request'' (Some ''Invalid product ID'')
         else
           (case find (\<lambda>p. id_p p = i) (mockProducts s1) of
              None \<Rightarrow>
                (Inl (ApiError (createApiError now 404 ''Not Found'' (Some (notFoundDetails i)))),
                 setLoading False s1)
            | Some found \<Rightarrow> (Inr found, setLoading False s1)))"

text \<open>
  A mutation works in two steps. Its call validates, reads the table and builds its
  result at once; a failure is an observable that fails, with nothing written. A
  success is an observable that, subscribed, emits after \<^verbatim>\<open>delay(300)\<close>: only then does
  the \<^verbatim>\<open>tap\<close> write the table and publish it, on the state the service has at that
  moment. Other operations can be called and can emit between the two steps, so each
  step is a function of its own, and the operation under its source name is the run in
  which the emission follows the call with nothing in between.
\<close>

text \<open>
  \<^verbatim>\<open>createProduct\<close>: the call takes the next identifier and reads the clock twice; the
  emission pushes the product built at the call.
\<close>

definition createProduct_call ::
  "state \<Rightarrow> int \<Rightarrow> int \<Rightarrow> productData \<Rightarrow> (error + product) \<times> state" where
  "createProduct_call s now now2 d =
     (let s1 = setLoading True s;
          validationErrors = validateProductData d False
      in if length validationErrors > 0
         then throwApiError s1 now 400 ''Validation Failed'' (Some (join ''; '' validationErrors))
         else
           (let newProduct =
                  \<lparr> id_p = nextId s1,
                    name = the (data_name d),
                    description = (case data_description d of Absent \<Rightarrow> None | Present v \<Rightarrow> v),
                    price = the (data_price d),
                    category = the (data_category d),
                    active = (case data_active d of None \<Rightarrow> True | Some a \<Rightarrow> a),
                    imageUrl = (case data_imageUrl d of Absent \<Rightarrow> None | Present v \<Rightarrow> v),
                    createdAt = now,
                    updatedAt = now2 \<rparr>
            in (Inr newProduct, s1\<lparr>nextId := nextId s1 + 1\<rparr>)))"

definition createProduct_emit :: "state \<Rightarrow> product \<Rightarrow> product \<times> state" where
  "createProduct_emit s newProduct =
     (let products' = mockProducts s @ [newProduct]
      in (newProduct,
          setLoading False (s\<lparr>mockProducts := products', productsSubject := products'\<rparr>)))"

definition createProduct :: "state \<Rightarrow> int \<Rightarrow> int \<Rightarrow> productData \<Rightarrow> (error + product) \<times> state" where
  "createProduct s now now2 d =
     (case createProduct_call s now now2 d of
        (Inl e, s1) \<Rightarrow> (Inl e, s1)
      | (Inr newProduct, s1) \<Rightarrow>
          (case createProduct_emit s1 newProduct of (p, s2) \<Rightarrow> (Inr p, s2)))"

text \<open>
  The assignment \<^verbatim>\<open>this.mockProducts[index] = v\<close>: it replaces an element, or appends
  when the index is the length. Beyond the length JavaScript leaves holes in the array,
  which a list cannot hold: that case is \<^const>\<open>None\<close>.
\<close>

definition js_assign :: "'a list \<Rightarrow> nat \<Rightarrow> 'a \<Rightarrow> 'a list option" where
  "js_assign xs index v =
     (if index < length xs then Some (xs[index := v])
      else if index = length xs then Some (xs @ [v])
      else None)"

text \<open>
  \<^verbatim>\<open>updateProduct\<close>: the call finds the index and builds the updated product from the
  element found; the emission assigns that product at that index of the table as it
  then is. In the run with nothing in between the index is within the table, so the
  assignment is defined.
\<close>

definition updateProduct_call ::
  "state \<Rightarrow> int \<Rightarrow> int \<Rightarrow> productData \<Rightarrow> (error + nat \<times> product) \<times> state" where
  "updateProduct_call s now i d =
     (let s1 = setLoading True s
      in if invalidId i then throwApiError s1 now 400 ''Bad Request'' (Some ''Invalid product ID'')
         else
           (let validationErrors = validateProductData d True
            in if length validationErrors > 0
               then throwApiError s1 now 400 ''Validation Failed''
                      (Some (join ''; '' validationErrors))
               else
                 (case findIndex (\<lambda>p. id_p p = i) (mockProducts s1) of
                    None \<Rightarrow> throwApiError s1 now 404 ''Not Found'' (Some (notFoundDetails i))
                  | Some index \<Rightarrow>
                      (let old = mockProducts s1 ! index;
                           updatedProduct =
                             \<lparr> id_p = i,
                               name = (case data_name d of None \<Rightarrow> name old | Some v \<Rightarrow> v),
                               description =
                                 (case data_description d of
                                    Absent \<Rightarrow> description old | Present v \<Rightarrow> v),
                               price = (case data_price d of None \<Rightarrow> price old | Some v \<Rightarrow> v),
                               category =
                                 (case data_category d of None \<Rightarrow> category old | Some v \<Rightarrow> v),
                               active = (case data_active d of None \<Rightarrow> active old | Some v \<Rightarrow> v),
                               imageUrl =
                                 (case data_imageUrl d of
                                    Absent \<Rightarrow> imageUrl old | Present v \<Rightarrow> v),
                               createdAt = createdAt old,
                               updatedAt = now \<rparr>
                       in (Inr (index, updatedProduct), s1)))))"

definition updateProduct_emit :: "state \<Rightarrow> nat \<Rightarrow> product \<Rightarrow> (product \<times> state) option" where
  "updateProduct_emit s index updatedProduct =
     (case js_assign (mockProducts s) index updatedProduct of
        None \<Rightarrow> None
      | Some products' \<Rightarrow>
          Some (updatedProduct,
                setLoading False (s\<lparr>mockProducts := products', productsSubject := products'\<rparr>)))"

definition updateProduct :: "state \<Rightarrow> int \<Rightarrow> int \<Rightarrow> productData \<Rightarrow> (error + product) \<times> state" where
  "updateProduct s now i d =
     (case updateProduct_call s now i d of
        (Inl e, s1) \<Rightarrow> (Inl e, s1)
      | (Inr (index, updatedProduct), s1) \<Rightarrow>
          (case the (updateProduct_emit s1 index updatedProduct) of (p, s2) \<Rightarrow> (Inr p, s2)))"

text \<open>
  \<^verbatim>\<open>deleteProduct\<close>: the call finds the index; the emission runs
  \<^verbatim>\<open>splice(index, 1)\<close> on the table as it then is, which removes nothing when the index
  is not within it.
\<close>

definition deleteProduct_call :: "state \<Rightarrow> int \<Rightarrow> int \<Rightarrow> (error + nat) \<times> state" where
  "deleteProduct_call s now i =
     (let s1 = setLoading True s
      in if invalidId i then throwApiError s1 now 400 ''Bad Request'' (Some ''Invalid product ID'')
         else
           (case findIndex (\<lambda>p. id_p p = i) (mockProducts s1) of
              None \<Rightarrow> throwApiError s1 now 404 ''Not Found'' (Some (notFoundDetails i))
            | Some index \<Rightarrow> (Inr index, s1)))"

definition deleteProduct_emit :: "state \<Rightarrow> nat \<Rightarrow> unit \<times> state" where
  "deleteProduct_emit s index =
     (let products' = take index (mockProducts s) @ drop (Suc index) (mockProducts s)
      in ((), setLoading False (s\<lparr>mockProducts := products', productsSubject := products'\<rparr>)))"

definition deleteProduct :: "state \<Rightarrow> int \<Rightarrow> int \<Rightarrow> (error + unit) \<times> state" where
  "deleteProduct s now i =
     (case deleteProduct_call s now i of
        (Inl e, s1) \<Rightarrow> (Inl e, s1)
      | (Inr index, s1) \<Rightarrow>
          (case deleteProduct_emit s1 index of (u, s2) \<Rightarrow> (Inr u, s2)))"

text \<open>The empty patch \<^verbatim>\<open>{}\<close>.\<close>

definition emptyPatch :: productData where
  "emptyPatch = \<lparr> data_name = None, data_description = Absent, data_price = None,
                  data_category = None, data_imageUrl = Absent, data_active = None \<rparr>"

text \<open>
  The states the service can be in, with the emissions that successful calls have left
  to come. A call adds its emission; an emission may happen at any later moment, or
  never, or more than once (one for each subscription), so it is never taken away. The
  loading flag alone may also be switched at any moment, by the call of a listing whose
  emission comes later. The predicate holds of every state of every run, interleaved or
  not.
\<close>

datatype pending =
  PendingCreate product
| PendingUpdate nat product
| PendingDelete nat

inductive reachable :: "state \<Rightarrow> pending set \<Rightarrow> bool" where
  reachable_init: "reachable init_state {}"
| reachable_setLoading: "reachable s P \<Longrightarrow> reachable (setLoading b s) P"
| reachable_getProducts:
    "reachable s P \<Longrightarrow> reachable (snd (getProducts s filters pagination)) P"
| reachable_getProductById:
    "reachable s P \<Longrightarrow> reachable (snd (getProductById s now i)) P"
| reachable_createProduct_call:
    "reachable s P \<Longrightarrow> createProduct_call s now now2 d = (r, s') \<Longrightarrow>
     reachable s' (case r of Inl e \<Rightarrow> P | Inr p \<Rightarrow> insert (PendingCreate p) P)"
| reachable_createProduct_emit:
    "reachable s P \<Longrightarrow> PendingCreate p \<in> P \<Longrightarrow>
     reachable (snd (createProduct_emit s p)) P"
| reachable_updateProduct_call:
    "reachable s P \<Longrightarrow> updateProduct_call s now i d = (r, s') \<Longrightarrow>
     reachable s' (case r of Inl e \<Rightarrow> P | Inr (k, u) \<Rightarrow> insert (PendingUpdate k u) P)"
| reachable_updateProduct_emit:
    "reachable s P \<Longrightarrow> PendingUpdate k u \<in> P \<Longrightarrow> updateProduct_emit s k u = Some (u', s') \<Longrightarrow>
     reachable s' P"
| reachable_deleteProduct_call:
    "reachable s P \<Longrightarrow> deleteProduct_call s now i = (r, s') \<Longrightarrow>
     reachable s' (case r of Inl e \<Rightarrow> P | Inr k \<Rightarrow> insert (PendingDelete k) P)"
| reachable_deleteProduct_emit:
    "reachable s P \<Longrightarrow> PendingDelete k \<in> P \<Longrightarrow>
     reachable (snd (deleteProduct_emit s k)) P"

section \<open>The listing view\<close>

text \<open>
  The part of \<^verbatim>\<open>ProductListComponent\<close> that talks to the service: the rows shown (each
  product with its \<^verbatim>\<open>active\<close> flag printed), the item count, the loading flag, the page
  asked for, and the messages handed to the notification service. The page size of the
  component is the constant 10. The component is taken to stay alive during a call, so
  that \<^verbatim>\<open>takeUntil(this.destroy$)\<close> passes everything on.
\<close>

datatype notification = NotifySuccess string | NotifyError string

record listComponent =
  products :: "(product \<times> string) list"
  comp_totalItems :: int
  loading :: bool
  comp_currentPage :: int
  notifications :: "notification list"

definition comp_pageSize :: int where
  "comp_pageSize = 10"

text \<open>
  \<^verbatim>\<open>error.name\<close> and \<^verbatim>\<open>error.message\<close>: an \<^verbatim>\<open>ApiError\<close> object has no \<^verbatim>\<open>name\<close>, and the
  \<^verbatim>\<open>TimeoutError\<close> of RxJS carries the message \<^verbatim>\<open>Timeout has occurred\<close>.
\<close>

definition error_name :: "error \<Rightarrow> string option" where
  "error_name e = (case e of ApiError a \<Rightarrow> None | JsError m \<Rightarrow> Some ''Error''
                   | TimeoutError \<Rightarrow> Some ''TimeoutError'')"

definition error_message :: "error \<Rightarrow> string" where
  "error_message e = (case e of ApiError a \<Rightarrow> message a | JsError m \<Rightarrow> m
                      | TimeoutError \<Rightarrow> ''Timeout has occurred'')"

definition bool_toString :: "bool \<Rightarrow> string" where
  "bool_toString b = (if b then ''true'' else ''false'')"

text \<open>
  \<^verbatim>\<open>timeout(5000)\<close>: \<^const>\<open>None\<close> is a source that neither emits nor fails within the
  five seconds.
\<close>

definition timeout_op :: "(error + 'a) option \<Rightarrow> error + 'a" where
  "timeout_op fetched = (case fetched of None \<Rightarrow> Inl TimeoutError | Some r \<Rightarrow> r)"

definition emptyPage :: "product paginatedResponse" where
  "emptyPage = \<lparr> data = [], currentPage = 1, pageSize = 10, totalItems = 0, totalPages = 0,
                 hasNext = False, hasPrevious = False \<rparr>"

definition notify :: "notification \<Rightarrow> listComponent \<Rightarrow> listComponent" where
  "notify n c = c\<lparr>notifications := notifications c @ [n]\<rparr>"

text \<open>The \<^verbatim>\<open>catchError\<close> stage of \<^verbatim>\<open>loadProducts\<close>: what it passes on, and the component after it.\<close>

definition loadProducts_catchError ::
  "listComponent \<Rightarrow> error + product paginatedResponse
     \<Rightarrow> (error + product paginatedResponse) \<times> listComponent" where
  "loadProducts_catchError c r =
     (case r of
        Inr response \<Rightarrow> (Inr response, c)
      | Inl e \<Rightarrow>
          (Inr emptyPage,
           notify
             (if error_name e = Some ''TimeoutError''
              then NotifyError ''Tempo limite excedido ao carregar produtos''
              else NotifyError (''Erro ao carregar produtos: '' @ error_message e))
             (c\<lparr>loading := False\<rparr>)))"

text \<open>The subscriber of \<^verbatim>\<open>loadProducts\<close>: its \<^verbatim>\<open>next\<close> and \<^verbatim>\<open>error\<close> callbacks.\<close>

definition loadProducts_subscribe ::
  "listComponent \<Rightarrow> error + product paginatedResponse \<Rightarrow> listComponent" where
  "loadProducts_subscribe c r =
     (case r of
        Inr response \<Rightarrow>
          c\<lparr>products := map (\<lambda>p. (p, bool_toString (active p))) (data response),
            comp_totalItems := totalItems response,
            loading := False\<rparr>
      | Inl e \<Rightarrow>
          (notify (NotifyError (''Erro ao carregar produtos: '' @ error_message e)) c)
            \<lparr>loading := False\<rparr>)"

text \<open>
  \<^verbatim>\<open>loadProducts\<close>, given what the observable of \<^verbatim>\<open>getProducts\<close> does; the result also
  carries what reached the subscriber.
\<close>

definition loadProducts ::
  "listComponent \<Rightarrow> (error + product paginatedResponse) option
     \<Rightarrow> (error + product paginatedResponse) \<times> listComponent" where
  "loadProducts c fetched =
     (let c1 = c\<lparr>loading := True\<rparr>;
          (delivered, c2) = loadProducts_catchError c1 (timeout_op fetched)
      in (delivered, loadProducts_subscribe c2 delivered))"

text \<open>
  \<^verbatim>\<open>loadProducts\<close> over the mock service, whose emission after 300 ms is within the time
  limit; \<open>filters\<close> is the object that \<^verbatim>\<open>buildFilters\<close> makes of the filter form.
\<close>

definition loadProducts_mock ::
  "listComponent \<Rightarrow> productFilter \<Rightarrow> state
     \<Rightarrow> ((error + product paginatedResponse) \<times> listComponent) \<times> state" where
  "loadProducts_mock c filters s =
     (let (r, s') = getProducts s (Some filters)
                      (Some \<lparr> page = Some (comp_currentPage c),
                              param_pageSize = Some comp_pageSize \<rparr>)
      in (loadProducts c (Some r), s'))"

text \<open>
  \<^verbatim>\<open>deleteProduct\<close> of the component, given the outcome \<open>r\<close> of the service's
  \<^verbatim>\<open>deleteProduct\<close> and, for the reload after a success, the outcome of the list fetch.
  The result carries what reached the subscriber of the deletion.
\<close>

definition comp_deleteProduct ::
  "listComponent \<Rightarrow> error + unit \<Rightarrow> (error + product paginatedResponse) option
     \<Rightarrow> (error + unit) \<times> listComponent" where
  "comp_deleteProduct c r reload =
     (let c1 = c\<lparr>loading := True\<rparr>
      in (r,
          (case r of
             Inr u \<Rightarrow>
               snd (loadProducts
                      (notify (NotifySuccess (''Produto exclu'' @ [CHR 0xED] @ ''do com sucesso!'')) c1)
                      reload)
           | Inl e \<Rightarrow>
               (notify (NotifyError (''Erro ao excluir produto: '' @ error_message e)) c1)
                 \<lparr>loading := False\<rparr>)))"

section \<open>The product form\<close>

text \<open>
  The two private methods of \<^verbatim>\<open>ProductFormComponent\<close> that send a mutation, given the
  outcome \<open>r\<close> of the service call and the payload already built from the form. The
  record keeps the loading flag, the product being edited, the notifications and the
  product page the router was last sent to.
\<close>

record formComponent =
  form_loading :: bool
  productId :: "int option"
  form_notifications :: "notification list"
  navigatedTo :: "int option"

definition form_notify :: "notification \<Rightarrow> formComponent \<Rightarrow> formComponent" where
  "form_notify n c = c\<lparr>form_notifications := form_notifications c @ [n]\<rparr>"

definition form_createProduct ::
  "formComponent \<Rightarrow> error + product \<Rightarrow> (error + product) \<times> formComponent" where
  "form_createProduct c r =
     (r,
      (case r of
         Inr p \<Rightarrow>
           (form_notify (NotifySuccess ''Produto criado com sucesso!'') c)
             \<lparr>navigatedTo := Some (id_p p)\<rparr>
       | Inl e \<Rightarrow>
           (form_notify (NotifyError (''Erro ao criar produto: '' @ error_message e)) c)
             \<lparr>form_loading := False\<rparr>))"

text \<open>
  \<^verbatim>\<open>updateProduct\<close> returns at once, without calling the service, when the component has
  no product identifier (or the identifier 0); \<^const>\<open>None\<close> is then what reached a subscriber.
\<close>

definition form_updateProduct ::
  "formComponent \<Rightarrow> error + product \<Rightarrow> (error + product) option \<times> formComponent" where
  "form_updateProduct c r =
     (case productId c of
        None \<Rightarrow> (None, c)
      | Some i \<Rightarrow>
          if i = 0 then (None, c)
          else
            (Some r,
             (case r of
                Inr p \<Rightarrow>
                  (form_notify (NotifySuccess ''Produto atualizado com sucesso!'') c)
                    \<lparr>navigatedTo := Some (id_p p)\<rparr>
              | Inl e \<Rightarrow>
                  (form_notify (NotifyError (''Erro ao atualizar produto: '' @ error_message e)) c)
                    \<lparr>form_loading := False\<rparr>)))"

section \<open>Properties of the listing\<close>

lemma length_js_slice_le:
  assumes "0 \<le> a" "0 \<le> n"
  shows "int (length (js_slice xs a (a + n))) \<le> n"
  using assms by (auto simp: js_slice_def Let_def min_def)

lemma js_slice_beyond:
  assumes "int (length xs) \<le> a" "0 \<le> n"
  shows "js_slice xs a (a + n) = []"
  using assms by (auto simp: js_slice_def Let_def min_def)

lemma less_ceiling_div_iff:
  assumes "0 < (ps::int)"
  shows "p < \<lceil>(of_int t :: rat) / of_int ps\<rceil> \<longleftrightarrow> p * ps < t"
proof -
  have "p < \<lceil>(of_int t :: rat) / of_int ps\<rceil> \<longleftrightarrow> (of_int p :: rat) < of_int t / of_int ps"
    by (rule less_ceiling_iff)
  also have "\<dots> \<longleftrightarrow> (of_int p :: rat) * of_int ps < of_int t"
    using assms by (simp add: pos_less_divide_eq)
  also have "\<dots> \<longleftrightarrow> p * ps < t"
    by (metis of_int_less_iff of_int_mult)
  finally show ?thesis .
qed

lemma applyFilters_None: "applyFilters None xs = xs"
  by (simp add: applyFilters_def filterFunctions_def)

lemma length_seedProducts: "length seedProducts = 8"
  by (simp add: seedProducts_def)

text \<open>
  C1. For a page number and a page size that are both at least 1, \<^const>\<open>getProducts\<close>
  succeeds, whatever the table and the filter, and its result has
  \<open>totalItems\<close> the size of the filtered table, \<open>totalPages = \<lceil>totalItems / pageSize\<rceil>\<close>,
  at most \<open>pageSize\<close> items, \<open>hasNext\<close> exactly when the page is below \<open>totalPages\<close>,
  and \<open>hasPrevious\<close> exactly when the page is above 1.
\<close>

theorem getProducts_pagination_metadata:
  assumes "1 \<le> p" and "1 \<le> ps"
  shows "\<exists>r s'. getProducts s filters (Some \<lparr>page = Some p, param_pageSize = Some ps\<rparr>) = (Inr r, s')
           \<and> totalItems r = int (length (applyFilters filters (mockProducts s)))
           \<and> totalPages r = \<lceil>(of_int (totalItems r) :: rat) / of_int ps\<rceil>
           \<and> int (length (data r)) \<le> ps
           \<and> (hasNext r \<longleftrightarrow> p < totalPages r)
           \<and> (hasPrevious r \<longleftrightarrow> 1 < p)"
proof -
  let ?filtered = "applyFilters filters (mockProducts s)"
  let ?t = "int (length ?filtered)"
  have len: "int (length (js_slice ?filtered ((p - 1) * ps) ((p - 1) * ps + ps))) \<le> ps"
    using assms by (intro length_js_slice_le) auto
  have nxt: "((p - 1) * ps + ps < ?t) \<longleftrightarrow> p < \<lceil>(of_int ?t :: rat) / of_int ps\<rceil>"
    using assms less_ceiling_div_iff [of ps p ?t] by (simp add: algebra_simps)
  show ?thesis
    using assms len nxt
    by (simp add: getProducts_def or_default_def setLoading_def Let_def)
qed

theorem getProducts_pagination_metadata_witness:
  "(1::int) \<le> 2 \<and> (1::int) \<le> 3 \<and>
   (\<exists>r s'. getProducts init_state None (Some \<lparr>page = Some 2, param_pageSize = Some 3\<rparr>) = (Inr r, s')
      \<and> totalItems r = 8 \<and> totalPages r = 3 \<and> int (length (data r)) \<le> 3
      \<and> hasNext r \<and> hasPrevious r)"
proof -
  have c: "\<lceil>(8 :: rat) / 3\<rceil> = 3" by (simp add: ceiling_eq_iff)
  from getProducts_pagination_metadata [of 2 3 init_state None]
  obtain r s' where
    g: "getProducts init_state None (Some \<lparr>page = Some 2, param_pageSize = Some 3\<rparr>) = (Inr r, s')"
    and ti: "totalItems r = int (length (applyFilters None (mockProducts init_state)))"
    and tp: "totalPages r = \<lceil>(of_int (totalItems r) :: rat) / of_int 3\<rceil>"
    and len: "int (length (data r)) \<le> 3"
    and nxt: "hasNext r \<longleftrightarrow> 2 < totalPages r"
    and prv: "hasPrevious r \<longleftrightarrow> (1::int) < 2"
    by auto
  from ti have ti': "totalItems r = 8"
    by (simp add: applyFilters_None init_state_def length_seedProducts)
  from tp ti' c have tp': "totalPages r = 3" by simp
  from g ti' tp' len nxt prv show ?thesis by simp
qed

text \<open>
  C10. A page number above \<open>totalPages\<close> is not an error: with a page number and a page
  size of at least 1, \<^const>\<open>getProducts\<close> succeeds with no items, the page asked for,
  the \<open>totalItems\<close> and \<open>totalPages\<close> of the filtered table, \<open>hasNext\<close> false, and
  \<open>hasPrevious\<close> true exactly when the page is above 1.
\<close>

theorem getProducts_page_beyond_last:
  assumes "1 \<le> p" and "1 \<le> ps"
    and "\<lceil>(of_int (int (length (applyFilters filters (mockProducts s)))) :: rat) / of_int ps\<rceil> < p"
  shows "fst (getProducts s filters (Some \<lparr>page = Some p, param_pageSize = Some ps\<rparr>)) =
           Inr \<lparr> data = [], currentPage = p, pageSize = ps,
                 totalItems = int (length (applyFilters filters (mockProducts s))),
                 totalPages =
                   \<lceil>(of_int (int (length (applyFilters filters (mockProducts s)))) :: rat) / of_int ps\<rceil>,
                 hasNext = False, hasPrevious = (1 < p) \<rparr>"
proof -
  let ?filtered = "applyFilters filters (mockProducts s)"
  let ?t = "int (length ?filtered)"
  from assms(3) have "\<not> (p - 1 < \<lceil>(of_int ?t :: rat) / of_int ps\<rceil>)" by simp
  with assms(2) have start: "?t \<le> (p - 1) * ps"
    using less_ceiling_div_iff [of ps "p - 1" ?t] by simp
  with assms(2) have empty: "js_slice ?filtered ((p - 1) * ps) ((p - 1) * ps + ps) = []"
    by (intro js_slice_beyond) auto
  from start assms(2) have nxt: "\<not> ((p - 1) * ps + ps < ?t)" by simp
  show ?thesis
    using assms(1,2) empty nxt
    by (simp add: getProducts_def or_default_def setLoading_def Let_def)
qed

theorem getProducts_page_beyond_last_witness:
  "(1::int) \<le> 4 \<and> (1::int) \<le> 3
   \<and> \<lceil>(of_int (int (length (applyFilters None (mockProducts init_state)))) :: rat) / of_int 3\<rceil> < 4
   \<and> fst (getProducts init_state None (Some \<lparr>page = Some 4, param_pageSize = Some 3\<rparr>)) =
         Inr \<lparr> data = [], currentPage = 4, pageSize = 3, totalItems = 8, totalPages = 3,
               hasNext = False, hasPrevious = True \<rparr>"
proof -
  have c: "\<lceil>(8 :: rat) / 3\<rceil> = 3" by (simp add: ceiling_eq_iff)
  have t: "int (length (applyFilters None (mockProducts init_state))) = 8"
    by (simp add: applyFilters_None init_state_def length_seedProducts)
  have h: "\<lceil>(of_int (int (length (applyFilters None (mockProducts init_state)))) :: rat) / of_int 3\<rceil> < 4"
    by (simp only: t) (simp add: c)
  from getProducts_page_beyond_last [of 4 3 None init_state, OF _ _ h]
  have "fst (getProducts init_state None (Some \<lparr>page = Some 4, param_pageSize = Some 3\<rparr>)) =
           Inr \<lparr> data = [], currentPage = 4, pageSize = 3,
                 totalItems = int (length (applyFilters None (mockProducts init_state))),
                 totalPages =
                   \<lceil>(of_int (int (length (applyFilters None (mockProducts init_state)))) :: rat) / of_int 3\<rceil>,
                 hasNext = False, hasPrevious = ((1::int) < 4) \<rparr>"
    by simp
  then have "fst (getProducts init_state None (Some \<lparr>page = Some 4, param_pageSize = Some 3\<rparr>)) =
         Inr \<lparr> data = [], currentPage = 4, pageSize = 3, totalItems = 8, totalPages = 3,
               hasNext = False, hasPrevious = True \<rparr>"
    by (simp only: t) (simp add: c)
  with h show ?thesis by simp
qed

text \<open>
  C4. What \<^const>\<open>getProducts\<close> does for a page below 1. The page 0 is replaced by the
  default 1 before the test \<^verbatim>\<open>page < 1\<close>, so the call succeeds and answers as for
  page 1; a negative page fails with the plain \<^verbatim>\<open>Error\<close> thrown inside \<^verbatim>\<open>map\<close>, not with
  the structured error 400 that \<^const>\<open>throwApiError\<close> builds for an identifier below 1.
\<close>

theorem getProducts_page_below_one:
  "getProducts s filters (Some \<lparr>page = Some 0, param_pageSize = ps\<rparr>) =
     getProducts s filters (Some \<lparr>page = Some 1, param_pageSize = ps\<rparr>)
   \<and> (\<exists>r. fst (getProducts s filters (Some \<lparr>page = Some 0, param_pageSize = ps\<rparr>)) = Inr r
            \<and> currentPage r = 1)
   \<and> (p < 0 \<longrightarrow>
        getProducts s filters (Some \<lparr>page = Some p, param_pageSize = ps\<rparr>) =
          (Inl (JsError ''Page must be greater than 0''), s\<lparr>loadingSubject := True\<rparr>))
   \<and> fst (getProductById s now 0) =
        Inl (ApiError \<lparr> statusCode = 400, message = ''Bad Request'',
                         details = Some ''Invalid product ID'', timestamp = now,
                         path = ''/api/products'' \<rparr>)"
  by (simp add: getProducts_def or_default_def setLoading_def Let_def getProductById_def
      invalidId_def throwApiError_def createApiError_def)

theorem getProducts_page_below_one_witness:
  "(- 1 :: int) < 0
   \<and> fst (getProducts init_state None (Some \<lparr>page = Some (- 1), param_pageSize = Some 10\<rparr>)) =
       Inl (JsError ''Page must be greater than 0'')
   \<and> (\<exists>r. fst (getProducts init_state None (Some \<lparr>page = Some 0, param_pageSize = Some 10\<rparr>)) = Inr r
          \<and> currentPage r = 1)"
proof -
  note t = getProducts_page_below_one [of init_state None "Some 10" "- 1" 0]
  from t have zero:
    "\<exists>r. fst (getProducts init_state None (Some \<lparr>page = Some 0, param_pageSize = Some 10\<rparr>)) = Inr r
        \<and> currentPage r = 1"
    by (rule conjunct1 [OF conjunct2])
  from t have "(- 1 :: int) < 0 \<longrightarrow>
      getProducts init_state None (Some \<lparr>page = Some (- 1), param_pageSize = Some 10\<rparr>) =
        (Inl (JsError ''Page must be greater than 0''), init_state\<lparr>loadingSubject := True\<rparr>)"
    by (rule conjunct1 [OF conjunct2 [OF conjunct2]])
  then have neg:
    "fst (getProducts init_state None (Some \<lparr>page = Some (- 1), param_pageSize = Some 10\<rparr>)) =
       Inl (JsError ''Page must be greater than 0'')"
    by simp
  from zero neg show ?thesis by simp
qed

lemmas seed_defs =
  seed1_def seed2_def seed3_def seed4_def seed5_def seed6_def seed7_def seed8_def

lemma seed_categories:
  "category seed1 = ''ELETRONICOS''" "category seed2 = ''ELETRONICOS''"
  "category seed3 = ''ELETRONICOS''" "category seed4 = ''ELETRONICOS''"
  "category seed5 = ''ROUPAS''" "category seed6 = ''LIVROS''"
  "category seed7 = ''CASA''" "category seed8 = ''ESPORTES''"
  by (simp_all add: seed_defs)

lemma seed_actives:
  "active seed1" "active seed2" "active seed3" "active seed4"
  "active seed5" "active seed6" "active seed7" "\<not> active seed8"
  by (simp_all add: seed_defs)

lemma filter_active_seed:
  "filter active seedProducts = [seed1, seed2, seed3, seed4, seed5, seed6, seed7]"
  by (simp add: seedProducts_def seed_actives)

lemma filter_category_seed:
  "filter (\<lambda>p. category p = ''ELETRONICOS'') seedProducts = [seed1, seed2, seed3, seed4]"
  by (simp add: seedProducts_def seed_categories)

lemma applyFilters_active_seed:
  "applyFilters (Some \<lparr> filter_category = None, minPrice = None, maxPrice = None,
                         filter_active = Some True, search = None \<rparr>) seedProducts
   = [seed1, seed2, seed3, seed4, seed5, seed6, seed7]"
  by (simp add: applyFilters_def filterFunctions_def filter_active_seed)

lemma applyFilters_electronics_seed:
  "applyFilters (Some \<lparr> filter_category = Some ''ELETRONICOS'', minPrice = None, maxPrice = None,
                         filter_active = Some True, search = None \<rparr>) seedProducts
   = [seed1, seed2, seed3, seed4]"
  by (simp add: applyFilters_def filterFunctions_def filter_category_seed seed_actives)

lemma getProducts_default_page:
  assumes "applyFilters filters (mockProducts s) = xs" and "length xs \<le> 10" and "xs \<noteq> []"
  shows "fst (getProducts s filters None) =
           Inr \<lparr> data = xs, currentPage = 1, pageSize = 10, totalItems = int (length xs),
                 totalPages = 1, hasNext = False, hasPrevious = False \<rparr>"
proof -
  from assms(2,3) have "\<lceil>(of_int (int (length xs)) :: rat) / 10\<rceil> = 1"
    by (simp add: ceiling_eq_iff)
  moreover from assms(2) have "js_slice xs 0 10 = xs"
    by (simp add: js_slice_def Let_def min_def)
  ultimately show ?thesis
    using assms by (simp add: getProducts_def or_default_def setLoading_def Let_def)
qed

text \<open>
  C2, as the claim states it, fails on the seed catalogue: the filter on the category
  \<^verbatim>\<open>ELETRONICOS\<close> and on active products returns four items, not three.
\<close>

theorem seed_active_electronics_counterexample:
  "fst (getProducts init_state
          (Some \<lparr> filter_category = Some ''ELETRONICOS'', minPrice = None, maxPrice = None,
                   filter_active = Some True, search = None \<rparr>) None) =
     Inr \<lparr> data = [seed1, seed2, seed3, seed4], currentPage = 1, pageSize = 10,
           totalItems = 4, totalPages = 1, hasNext = False, hasPrevious = False \<rparr>
   \<and> length [seed1, seed2, seed3, seed4] \<noteq> 3"
  using getProducts_default_page [of _ init_state "[seed1, seed2, seed3, seed4]"]
  by (simp add: init_state_def applyFilters_electronics_seed)

text \<open>
  C2, amended. On the seed catalogue of eight products, of which exactly one is
  inactive, listing the active products returns seven items, and listing the active
  products of category \<^verbatim>\<open>ELETRONICOS\<close> returns exactly the four active electronics items,
  the products 1 to 4. In general the filters given are conjoined: the filtered table
  holds, in the order of the table, the products that satisfy every filter present.
\<close>

theorem seed_filters_conjoined:
  "length seedProducts = 8
   \<and> filter (\<lambda>p. active p = False) seedProducts = [seed8]
   \<and> fst (getProducts init_state
            (Some \<lparr> filter_category = None, minPrice = None, maxPrice = None,
                     filter_active = Some True, search = None \<rparr>) None) =
       Inr \<lparr> data = [seed1, seed2, seed3, seed4, seed5, seed6, seed7], currentPage = 1,
             pageSize = 10, totalItems = 7, totalPages = 1, hasNext = False,
             hasPrevious = False \<rparr>
   \<and> fst (getProducts init_state
            (Some \<lparr> filter_category = Some ''ELETRONICOS'', minPrice = None, maxPrice = None,
                     filter_active = Some True, search = None \<rparr>) None) =
       Inr \<lparr> data = [seed1, seed2, seed3, seed4], currentPage = 1, pageSize = 10,
             totalItems = 4, totalPages = 1, hasNext = False, hasPrevious = False \<rparr>
   \<and> applyFilters (Some f) xs =
       filter (\<lambda>p. (case filter_category f of None \<Rightarrow> True | Some c \<Rightarrow> c = [] \<or> category p = c)
                 \<and> (case minPrice f of None \<Rightarrow> True | Some m \<Rightarrow> m \<le> price p)
                 \<and> (case maxPrice f of None \<Rightarrow> True | Some m \<Rightarrow> price p \<le> m)
                 \<and> (case filter_active f of None \<Rightarrow> True | Some a \<Rightarrow> active p = a)
                 \<and> (case search f of None \<Rightarrow> True
                     | Some q \<Rightarrow> q = [] \<or> matchesSearch (toLowerCase q) p)) xs"
proof (intro conjI)
  show "length seedProducts = 8" by (rule length_seedProducts)
  show "filter (\<lambda>p. active p = False) seedProducts = [seed8]"
    by (simp add: seedProducts_def seed_actives)
  show "fst (getProducts init_state
            (Some \<lparr> filter_category = None, minPrice = None, maxPrice = None,
                     filter_active = Some True, search = None \<rparr>) None) =
       Inr \<lparr> data = [seed1, seed2, seed3, seed4, seed5, seed6, seed7], currentPage = 1,
             pageSize = 10, totalItems = 7, totalPages = 1, hasNext = False,
             hasPrevious = False \<rparr>"
    using getProducts_default_page [of _ init_state "[seed1, seed2, seed3, seed4, seed5, seed6, seed7]"]
    by (simp add: init_state_def applyFilters_active_seed)
  show "fst (getProducts init_state
            (Some \<lparr> filter_category = Some ''ELETRONICOS'', minPrice = None, maxPrice = None,
                     filter_active = Some True, search = None \<rparr>) None) =
       Inr \<lparr> data = [seed1, seed2, seed3, seed4], currentPage = 1, pageSize = 10,
             totalItems = 4, totalPages = 1, hasNext = False, hasPrevious = False \<rparr>"
    using getProducts_default_page [of _ init_state "[seed1, seed2, seed3, seed4]"]
    by (simp add: init_state_def applyFilters_electronics_seed)
  show "applyFilters (Some f) xs =
       filter (\<lambda>p. (case filter_category f of None \<Rightarrow> True | Some c \<Rightarrow> c = [] \<or> category p = c)
                 \<and> (case minPrice f of None \<Rightarrow> True | Some m \<Rightarrow> m \<le> price p)
                 \<and> (case maxPrice f of None \<Rightarrow> True | Some m \<Rightarrow> price p \<le> m)
                 \<and> (case filter_active f of None \<Rightarrow> True | Some a \<Rightarrow> active p = a)
                 \<and> (case search f of None \<Rightarrow> True
                     | Some q \<Rightarrow> q = [] \<or> matchesSearch (toLowerCase q) p)) xs"
    by (simp add: applyFilters_def filterFunctions_def conj_ac
        split: option.splits cong: filter_cong)
qed

theorem seed_filters_conjoined_witness:
  "applyFilters (Some \<lparr> filter_category = Some ''ELETRONICOS'', minPrice = None, maxPrice = None,
                         filter_active = Some True, search = None \<rparr>) seedProducts =
     filter (\<lambda>p. category p = ''ELETRONICOS'' \<and> active p = True) seedProducts"
  using seed_filters_conjoined
    [of "\<lparr> filter_category = Some ''ELETRONICOS'', minPrice = None, maxPrice = None,
           filter_active = Some True, search = None \<rparr>" seedProducts]
  by simp

section \<open>The operations run without interleaving\<close>

text \<open>What the three mutations come to when the emission follows the call at once.\<close>

lemma createProduct_unfold:
  "createProduct s now now2 d =
     (let s1 = setLoading True s;
          validationErrors = validateProductData d False
      in if length validationErrors > 0
         then throwApiError s1 now 400 ''Validation Failed'' (Some (join ''; '' validationErrors))
         else
           (let newProduct =
                  \<lparr> id_p = nextId s1,
                    name = the (data_name d),
                    description = (case data_description d of Absent \<Rightarrow> None | Present v \<Rightarrow> v),
                    price = the (data_price d),
                    category = the (data_category d),
                    active = (case data_active d of None \<Rightarrow> True | Some a \<Rightarrow> a),
                    imageUrl = (case data_imageUrl d of Absent \<Rightarrow> None | Present v \<Rightarrow> v),
                    createdAt = now,
                    updatedAt = now2 \<rparr>;
                s2 = s1\<lparr>nextId := nextId s1 + 1\<rparr>;
                products' = mockProducts s2 @ [newProduct]
            in (Inr newProduct,
                setLoading False (s2\<lparr>mockProducts := products', productsSubject := products'\<rparr>))))"
  by (simp add: createProduct_def createProduct_call_def createProduct_emit_def
      throwApiError_def Let_def)

lemma findIndex_in_range: "findIndex P xs = Some k \<Longrightarrow> k < length xs"
proof (induction xs arbitrary: k)
  case Nil
  then show ?case by simp
next
  case (Cons x xs)
  then show ?case
    by (cases k) (auto split: if_splits option.splits)
qed

lemma updateProduct_unfold:
  "updateProduct s now i d =
     (let s1 = setLoading True s
      in if invalidId i then throwApiError s1 now 400 ''Bad Request'' (Some ''Invalid product ID'')
         else
           (let validationErrors = validateProductData d True
            in if length validationErrors > 0
               then throwApiError s1 now 400 ''Validation Failed''
                      (Some (join ''; '' validationErrors))
               else
                 (case findIndex (\<lambda>p. id_p p = i) (mockProducts s1) of
                    None \<Rightarrow> throwApiError s1 now 404 ''Not Found'' (Some (notFoundDetails i))
                  | Some index \<Rightarrow>
                      (let old = mockProducts s1 ! index;
                           updatedProduct =
                             \<lparr> id_p = i,
                               name = (case data_name d of None \<Rightarrow> name old | Some v \<Rightarrow> v),
                               description =
                                 (case data_description d of
                                    Absent \<Rightarrow> description old | Present v \<Rightarrow> v),
                               price = (case data_price d of None \<Rightarrow> price old | Some v \<Rightarrow> v),
                               category =
                                 (case data_category d of None \<Rightarrow> category old | Some v \<Rightarrow> v),
                               active = (case data_active d of None \<Rightarrow> active old | Some v \<Rightarrow> v),
                               imageUrl =
                                 (case data_imageUrl d of
                                    Absent \<Rightarrow> imageUrl old | Present v \<Rightarrow> v),
                               createdAt = createdAt old,
                               updatedAt = now \<rparr>;
                           products' = (mockProducts s1)[index := updatedProduct]
                       in (Inr updatedProduct,
                           setLoading False
                             (s1\<lparr>mockProducts := products', productsSubject := products'\<rparr>))))))"
proof (cases "findIndex (\<lambda>p. id_p p = i) (mockProducts s)")
  case None
  then show ?thesis
    by (simp add: updateProduct_def updateProduct_call_def throwApiError_def setLoading_def Let_def)
next
  case (Some k)
  then have "k < length (mockProducts s)" by (rule findIndex_in_range)
  with Some show ?thesis
    by (simp add: updateProduct_def updateProduct_call_def updateProduct_emit_def js_assign_def
        throwApiError_def setLoading_def Let_def)
qed

lemma deleteProduct_unfold:
  "deleteProduct s now i =
     (let s1 = setLoading True s
      in if invalidId i then throwApiError s1 now 400 ''Bad Request'' (Some ''Invalid product ID'')
         else
           (case findIndex (\<lambda>p. id_p p = i) (mockProducts s1) of
              None \<Rightarrow> throwApiError s1 now 404 ''Not Found'' (Some (notFoundDetails i))
            | Some index \<Rightarrow>
                (let products' = take index (mockProducts s1) @ drop (Suc index) (mockProducts s1)
                 in (Inr (),
                     setLoading False
                       (s1\<lparr>mockProducts := products', productsSubject := products'\<rparr>)))))"
  by (simp add: deleteProduct_def deleteProduct_call_def deleteProduct_emit_def
      throwApiError_def Let_def split: option.splits)

section \<open>Properties of validation\<close>

lemma sublist_join: "m \<in> set ms \<Longrightarrow> sublist m (join sep ms)"
proof (induction sep ms rule: join.induct)
  case (1 sep)
  then show ?case by simp
next
  case (2 sep x)
  then show ?case by simp
next
  case (3 sep x y ys)
  show ?case
  proof (cases "m = x")
    case True
    then show ?thesis by (simp add: sublist_append_rightI)
  next
    case False
    with 3 have "sublist m (join sep (y # ys))" by simp
    then have "sublist m ((x @ sep) @ join sep (y # ys))" by (auto simp: sublist_append)
    then show ?thesis by simp
  qed
qed

lemma trim_Nil: "trim [] = []"
  by (simp add: trim_def)

text \<open>What each block of the validation returns for a creation, rule by rule.\<close>

lemma nameErrors_create:
  "nameErrors d False =
     (case data_name d of
        None \<Rightarrow> [''Name is required'']
      | Some n \<Rightarrow>
          if length (trim n) = 0 then [''Name is required'']
          else if length n < 3 then [''Name must be at least 3 characters'']
          else if 200 < length n then [''Name must not exceed 200 characters'']
          else [])"
  by (auto simp: nameErrors_def trim_Nil split: option.splits)

lemma priceErrors_create:
  "priceErrors d False =
     (case data_price d of
        None \<Rightarrow> [''Price is required'']
      | Some p \<Rightarrow>
          if p < 0 then [''Price must be greater than or equal to 0'']
          else if 999999.99 < p then [''Price must not exceed 999999.99'']
          else [])"
  by (simp add: priceErrors_def split: option.splits)

lemma categories_message:
  "join '', '' validCategories = ''ELETRONICOS, ROUPAS, LIVROS, CASA, ESPORTES, OUTROS''"
  by (simp add: validCategories_def)

lemma set_validCategories:
  "set validCategories = {''ELETRONICOS'', ''ROUPAS'', ''LIVROS'', ''CASA'', ''ESPORTES'', ''OUTROS''}"
  by (simp add: validCategories_def)

lemma categoryErrors_create:
  "categoryErrors d False =
     (case data_category d of
        None \<Rightarrow> [''Category is required'']
      | Some c \<Rightarrow>
          if c = [] then [''Category is required'']
          else if c \<notin> {''ELETRONICOS'', ''ROUPAS'', ''LIVROS'', ''CASA'', ''ESPORTES'', ''OUTROS''}
            then [''Category must be one of: ELETRONICOS, ROUPAS, LIVROS, CASA, ESPORTES, OUTROS'']
          else [])"
  by (simp add: categoryErrors_def categories_message set_validCategories split: option.splits)

lemma descriptionErrors_create:
  "descriptionErrors d =
     (case data_description d of
        Present (Some t) \<Rightarrow>
          if 1000 < length t then [''Description must not exceed 1000 characters''] else []
      | _ \<Rightarrow> [])"
  by (auto simp: descriptionErrors_def split: optional.splits option.splits)

lemma createProduct_failure:
  assumes "fst (createProduct s now now2 d) = Inl e"
  shows "validateProductData d False \<noteq> []
         \<and> e = ApiError \<lparr> statusCode = 400, message = ''Validation Failed'',
                            details = Some (join ''; '' (validateProductData d False)),
                            timestamp = now, path = ''/api/products'' \<rparr>"
  using assms
  by (auto simp: createProduct_unfold throwApiError_def createApiError_def Let_def
      split: if_splits)

lemma createProduct_success:
  assumes "validateProductData d False = []"
  shows "\<exists>p. fst (createProduct s now now2 d) = Inr p"
  using assms by (simp add: createProduct_unfold Let_def)

text \<open>
  C3, as the claim states it, fails: the rules of one field are tested in a chain that
  stops at the first one violated. The name of two blanks violates two rules (it is
  empty once trimmed, and shorter than 3), and the details carry only the message of
  the first.
\<close>

theorem two_name_rules_counterexample:
  "trim ''  '' = [] \<and> length ''  '' < 3
   \<and> fst (createProduct init_state 0 0
        \<lparr> data_name = Some ''  '', data_description = Absent, data_price = Some 10,
          data_category = Some ''CASA'', data_imageUrl = Absent, data_active = None \<rparr>) =
       Inl (ApiError \<lparr> statusCode = 400, message = ''Validation Failed'',
                        details = Some ''Name is required'', timestamp = 0,
                        path = ''/api/products'' \<rparr>)
   \<and> \<not> sublist ''Name must be at least 3 characters'' ''Name is required''"
proof -
  have "\<not> sublist ''Name must be at least 3 characters'' ''Name is required''"
    using sublist_length_le [of "''Name must be at least 3 characters''" "''Name is required''"]
    by auto
  moreover have "trim ''  '' = []"
    by (simp add: trim_def is_space_def)
  ultimately show ?thesis
    by (simp add: createProduct_unfold validateProductData_def nameErrors_create
        priceErrors_create categoryErrors_create descriptionErrors_create
        throwApiError_def createApiError_def Let_def)
qed

text \<open>
  C3, amended. A creation succeeds exactly when no field rule is violated. When it
  fails, it fails with the error 400 \<^verbatim>\<open>Validation Failed\<close>, whose details contain, for
  every field whose rules are violated, the message of the first violated rule of that
  field, whatever the other fields are: for the name, that it is required (absent, or
  empty once trimmed), else that it is shorter than 3, else that it is longer than 200;
  for the price, that it is required, or negative, or above 999999.99; for the
  category, that it is required (absent or empty), else that it is none of the six
  categories; for the description, that it is longer than 1000. In particular the
  payload with name \<^verbatim>\<open>ab\<close>, price -1 and category \<^verbatim>\<open>INVALID\<close> is refused with three
  messages: name too short, negative price, invalid category.
\<close>

theorem createProduct_reports_every_violation:
  "((\<exists>p. fst (createProduct s now now2 d) = Inr p) \<longleftrightarrow>
      (case data_name d of
         None \<Rightarrow> False
       | Some n \<Rightarrow> trim n \<noteq> [] \<and> 3 \<le> length n \<and> length n \<le> 200)
      \<and> (case data_price d of None \<Rightarrow> False | Some p \<Rightarrow> 0 \<le> p \<and> p \<le> 999999.99)
      \<and> (case data_category d of
           None \<Rightarrow> False
         | Some c \<Rightarrow> c \<in> {''ELETRONICOS'', ''ROUPAS'', ''LIVROS'', ''CASA'', ''ESPORTES'', ''OUTROS''})
      \<and> (case data_description d of Present (Some t) \<Rightarrow> length t \<le> 1000 | _ \<Rightarrow> True))
   \<and> (fst (createProduct s now now2 d) = Inl e \<longrightarrow>
        (\<exists>ds. e = ApiError \<lparr> statusCode = 400, message = ''Validation Failed'',
                              details = Some ds, timestamp = now, path = ''/api/products'' \<rparr>
           \<and> (case data_name d of
                 None \<Rightarrow> sublist ''Name is required'' ds
               | Some n \<Rightarrow>
                   (trim n = [] \<longrightarrow> sublist ''Name is required'' ds)
                   \<and> (trim n \<noteq> [] \<and> length n < 3 \<longrightarrow>
                        sublist ''Name must be at least 3 characters'' ds)
                   \<and> (trim n \<noteq> [] \<and> 200 < length n \<longrightarrow>
                        sublist ''Name must not exceed 200 characters'' ds))
           \<and> (case data_price d of
                 None \<Rightarrow> sublist ''Price is required'' ds
               | Some p \<Rightarrow>
                   (p < 0 \<longrightarrow> sublist ''Price must be greater than or equal to 0'' ds)
                   \<and> (999999.99 < p \<longrightarrow> sublist ''Price must not exceed 999999.99'' ds))
           \<and> (case data_category d of
                 None \<Rightarrow> sublist ''Category is required'' ds
               | Some c \<Rightarrow>
                   (c = [] \<longrightarrow> sublist ''Category is required'' ds)
                   \<and> (c \<noteq> [] \<and> c \<notin> {''ELETRONICOS'', ''ROUPAS'', ''LIVROS'', ''CASA'',
                                       ''ESPORTES'', ''OUTROS''} \<longrightarrow>
                        sublist ''Category must be one of: ELETRONICOS, ROUPAS, LIVROS, CASA, ESPORTES, OUTROS'' ds))
           \<and> (case data_description d of
                 Present (Some t) \<Rightarrow>
                   1000 < length t \<longrightarrow>
                     sublist ''Description must not exceed 1000 characters'' ds
               | _ \<Rightarrow> True)))
   \<and> fst (createProduct s now now2
             \<lparr> data_name = Some ''ab'', data_description = Absent, data_price = Some (- 1),
               data_category = Some ''INVALID'', data_imageUrl = Absent, data_active = None \<rparr>)
       = Inl (ApiError \<lparr> statusCode = 400, message = ''Validation Failed'',
                details = Some (''Name must be at least 3 characters; '' @
                                ''Price must be greater than or equal to 0; '' @
                                ''Category must be one of: ELETRONICOS, ROUPAS, LIVROS, CASA, ESPORTES, OUTROS''),
                timestamp = now, path = ''/api/products'' \<rparr>)"
proof (intro conjI)
  let ?V = "validateProductData d False"
  have ok_iff: "?V = [] \<longleftrightarrow>
      (case data_name d of
         None \<Rightarrow> False
       | Some n \<Rightarrow> trim n \<noteq> [] \<and> 3 \<le> length n \<and> length n \<le> 200)
      \<and> (case data_price d of None \<Rightarrow> False | Some p \<Rightarrow> 0 \<le> p \<and> p \<le> 999999.99)
      \<and> (case data_category d of
           None \<Rightarrow> False
         | Some c \<Rightarrow> c \<in> {''ELETRONICOS'', ''ROUPAS'', ''LIVROS'', ''CASA'', ''ESPORTES'', ''OUTROS''})
      \<and> (case data_description d of Present (Some t) \<Rightarrow> length t \<le> 1000 | _ \<Rightarrow> True)"
  proof -
    have n: "nameErrors d False = [] \<longleftrightarrow>
        (case data_name d of
           None \<Rightarrow> False
         | Some n \<Rightarrow> trim n \<noteq> [] \<and> 3 \<le> length n \<and> length n \<le> 200)"
      by (auto simp: nameErrors_create split: option.splits)
    have p: "priceErrors d False = [] \<longleftrightarrow>
        (case data_price d of None \<Rightarrow> False | Some p \<Rightarrow> 0 \<le> p \<and> p \<le> 999999.99)"
      by (auto simp: priceErrors_create split: option.splits)
    have c: "categoryErrors d False = [] \<longleftrightarrow>
        (case data_category d of
           None \<Rightarrow> False
         | Some c \<Rightarrow> c \<in> {''ELETRONICOS'', ''ROUPAS'', ''LIVROS'', ''CASA'', ''ESPORTES'', ''OUTROS''})"
      by (simp add: categoryErrors_create split: option.splits)
    have t: "descriptionErrors d = [] \<longleftrightarrow>
        (case data_description d of Present (Some t) \<Rightarrow> length t \<le> 1000 | _ \<Rightarrow> True)"
      by (auto simp: descriptionErrors_create split: optional.splits option.splits)
    show ?thesis
      by (simp only: validateProductData_def append_is_Nil_conv n p c t)
  qed
  have "(\<exists>p. fst (createProduct s now now2 d) = Inr p) \<longleftrightarrow> ?V = []"
  proof
    assume "\<exists>p. fst (createProduct s now now2 d) = Inr p"
    then show "?V = []"
      by (auto simp: createProduct_unfold throwApiError_def Let_def split: if_splits)
  next
    assume "?V = []"
    then show "\<exists>p. fst (createProduct s now now2 d) = Inr p"
      by (rule createProduct_success)
  qed
  with ok_iff
  show "(\<exists>p. fst (createProduct s now now2 d) = Inr p) \<longleftrightarrow>
      (case data_name d of
         None \<Rightarrow> False
       | Some n \<Rightarrow> trim n \<noteq> [] \<and> 3 \<le> length n \<and> length n \<le> 200)
      \<and> (case data_price d of None \<Rightarrow> False | Some p \<Rightarrow> 0 \<le> p \<and> p \<le> 999999.99)
      \<and> (case data_category d of
           None \<Rightarrow> False
         | Some c \<Rightarrow> c \<in> {''ELETRONICOS'', ''ROUPAS'', ''LIVROS'', ''CASA'', ''ESPORTES'', ''OUTROS''})
      \<and> (case data_description d of Present (Some t) \<Rightarrow> length t \<le> 1000 | _ \<Rightarrow> True)"
    by simp
next
  show "fst (createProduct s now now2 d) = Inl e \<longrightarrow>
        (\<exists>ds. e = ApiError \<lparr> statusCode = 400, message = ''Validation Failed'',
                              details = Some ds, timestamp = now, path = ''/api/products'' \<rparr>
           \<and> (case data_name d of
                 None \<Rightarrow> sublist ''Name is required'' ds
               | Some n \<Rightarrow>
                   (trim n = [] \<longrightarrow> sublist ''Name is required'' ds)
                   \<and> (trim n \<noteq> [] \<and> length n < 3 \<longrightarrow>
                        sublist ''Name must be at least 3 characters'' ds)
                   \<and> (trim n \<noteq> [] \<and> 200 < length n \<longrightarrow>
                        sublist ''Name must not exceed 200 characters'' ds))
           \<and> (case data_price d of
                 None \<Rightarrow> sublist ''Price is required'' ds
               | Some p \<Rightarrow>
                   (p < 0 \<longrightarrow> sublist ''Price must be greater than or equal to 0'' ds)
                   \<and> (999999.99 < p \<longrightarrow> sublist ''Price must not exceed 999999.99'' ds))
           \<and> (case data_category d of
                 None \<Rightarrow> sublist ''Category is required'' ds
               | Some c \<Rightarrow>
                   (c = [] \<longrightarrow> sublist ''Category is required'' ds)
                   \<and> (c \<noteq> [] \<and> c \<notin> {''ELETRONICOS'', ''ROUPAS'', ''LIVROS'', ''CASA'',
                                       ''ESPORTES'', ''OUTROS''} \<longrightarrow>
                        sublist ''Category must be one of: ELETRONICOS, ROUPAS, LIVROS, CASA, ESPORTES, OUTROS'' ds))
           \<and> (case data_description d of
                 Present (Some t) \<Rightarrow>
                   1000 < length t \<longrightarrow>
                     sublist ''Description must not exceed 1000 characters'' ds
               | _ \<Rightarrow> True))"
  proof
    assume f: "fst (createProduct s now now2 d) = Inl e"
    let ?V = "validateProductData d False"
    let ?ds = "join ''; '' ?V"
    from createProduct_failure [OF f]
    have e: "e = ApiError \<lparr> statusCode = 400, message = ''Validation Failed'',
                              details = Some ?ds, timestamp = now, path = ''/api/products'' \<rparr>"
      by simp
    have sub: "sublist m ?ds" if "m \<in> set ?V" for m
      using that by (rule sublist_join)
    have n: "case data_name d of
                 None \<Rightarrow> sublist ''Name is required'' ?ds
               | Some n \<Rightarrow>
                   (trim n = [] \<longrightarrow> sublist ''Name is required'' ?ds)
                   \<and> (trim n \<noteq> [] \<and> length n < 3 \<longrightarrow>
                        sublist ''Name must be at least 3 characters'' ?ds)
                   \<and> (trim n \<noteq> [] \<and> 200 < length n \<longrightarrow>
                        sublist ''Name must not exceed 200 characters'' ?ds)"
    proof -
      have "set (nameErrors d False) \<subseteq> set ?V"
        by (auto simp: validateProductData_def)
      then have "sublist m ?ds" if "m \<in> set (nameErrors d False)" for m
        using that sub by blast
      then show ?thesis
        by (simp add: nameErrors_create split: option.splits)
    qed
    have p: "case data_price d of
                 None \<Rightarrow> sublist ''Price is required'' ?ds
               | Some p \<Rightarrow>
                   (p < 0 \<longrightarrow> sublist ''Price must be greater than or equal to 0'' ?ds)
                   \<and> (999999.99 < p \<longrightarrow> sublist ''Price must not exceed 999999.99'' ?ds)"
    proof -
      have "set (priceErrors d False) \<subseteq> set ?V"
        by (auto simp: validateProductData_def)
      then have "sublist m ?ds" if "m \<in> set (priceErrors d False)" for m
        using that sub by blast
      then show ?thesis
        by (simp add: priceErrors_create split: option.splits)
    qed
    have c: "case data_category d of
                 None \<Rightarrow> sublist ''Category is required'' ?ds
               | Some c \<Rightarrow>
                   (c = [] \<longrightarrow> sublist ''Category is required'' ?ds)
                   \<and> (c \<noteq> [] \<and> c \<notin> {''ELETRONICOS'', ''ROUPAS'', ''LIVROS'', ''CASA'',
                                       ''ESPORTES'', ''OUTROS''} \<longrightarrow>
                        sublist ''Category must be one of: ELETRONICOS, ROUPAS, LIVROS, CASA, ESPORTES, OUTROS'' ?ds)"
    proof -
      have "set (categoryErrors d False) \<subseteq> set ?V"
        by (auto simp: validateProductData_def)
      then have "sublist m ?ds" if "m \<in> set (categoryErrors d False)" for m
        using that sub by blast
      then show ?thesis
        by (simp add: categoryErrors_create split: option.splits)
    qed
    have t: "case data_description d of
                 Present (Some t) \<Rightarrow>
                   1000 < length t \<longrightarrow>
                     sublist ''Description must not exceed 1000 characters'' ?ds
               | _ \<Rightarrow> True"
    proof -
      have "set (descriptionErrors d) \<subseteq> set ?V"
        by (auto simp: validateProductData_def)
      then have "sublist m ?ds" if "m \<in> set (descriptionErrors d)" for m
        using that sub by blast
      then show ?thesis
        by (simp add: descriptionErrors_create split: optional.splits option.splits)
    qed
    from e n p c t
    show "\<exists>ds. e = ApiError \<lparr> statusCode = 400, message = ''Validation Failed'',
                              details = Some ds, timestamp = now, path = ''/api/products'' \<rparr>
           \<and> (case data_name d of
                 None \<Rightarrow> sublist ''Name is required'' ds
               | Some n \<Rightarrow>
                   (trim n = [] \<longrightarrow> sublist ''Name is required'' ds)
                   \<and> (trim n \<noteq> [] \<and> length n < 3 \<longrightarrow>
                        sublist ''Name must be at least 3 characters'' ds)
                   \<and> (trim n \<noteq> [] \<and> 200 < length n \<longrightarrow>
                        sublist ''Name must not exceed 200 characters'' ds))
           \<and> (case data_price d of
                 None \<Rightarrow> sublist ''Price is required'' ds
               | Some p \<Rightarrow>
                   (p < 0 \<longrightarrow> sublist ''Price must be greater than or equal to 0'' ds)
                   \<and> (999999.99 < p \<longrightarrow> sublist ''Price must not exceed 999999.99'' ds))
           \<and> (case data_category d of
                 None \<Rightarrow> sublist ''Category is required'' ds
               | Some c \<Rightarrow>
                   (c = [] \<longrightarrow> sublist ''Category is required'' ds)
                   \<and> (c \<noteq> [] \<and> c \<notin> {''ELETRONICOS'', ''ROUPAS'', ''LIVROS'', ''CASA'',
                                       ''ESPORTES'', ''OUTROS''} \<longrightarrow>
                        sublist ''Category must be one of: ELETRONICOS, ROUPAS, LIVROS, CASA, ESPORTES, OUTROS'' ds))
           \<and> (case data_description d of
                 Present (Some t) \<Rightarrow>
                   1000 < length t \<longrightarrow>
                     sublist ''Description must not exceed 1000 characters'' ds
               | _ \<Rightarrow> True)"
      by blast
  qed
next
  have "trim ''ab'' = ''ab''"
    by (simp add: trim_def is_space_def)
  then show "fst (createProduct s now now2
             \<lparr> data_name = Some ''ab'', data_description = Absent, data_price = Some (- 1),
               data_category = Some ''INVALID'', data_imageUrl = Absent, data_active = None \<rparr>)
       = Inl (ApiError \<lparr> statusCode = 400, message = ''Validation Failed'',
                details = Some (''Name must be at least 3 characters; '' @
                                ''Price must be greater than or equal to 0; '' @
                                ''Category must be one of: ELETRONICOS, ROUPAS, LIVROS, CASA, ESPORTES, OUTROS''),
                timestamp = now, path = ''/api/products'' \<rparr>)"
    by (simp add: createProduct_unfold throwApiError_def createApiError_def setLoading_def Let_def
        validateProductData_def nameErrors_create priceErrors_create categoryErrors_create
        descriptionErrors_create)
qed

theorem createProduct_reports_every_violation_witness:
  "fst (createProduct init_state 0 0
        \<lparr> data_name = Some ''ab'', data_description = Absent, data_price = Some (- 1),
          data_category = Some ''CASA'', data_imageUrl = Absent, data_active = None \<rparr>)
     = Inl (ApiError \<lparr> statusCode = 400, message = ''Validation Failed'',
              details = Some (''Name must be at least 3 characters; '' @
                              ''Price must be greater than or equal to 0''),
              timestamp = 0, path = ''/api/products'' \<rparr>)
   \<and> trim ''ab'' \<noteq> [] \<and> length ''ab'' < 3 \<and> (- 1 :: rat) < 0
   \<and> sublist ''Name must be at least 3 characters''
        (''Name must be at least 3 characters; '' @ ''Price must be greater than or equal to 0'')
   \<and> sublist ''Price must be greater than or equal to 0''
        (''Name must be at least 3 characters; '' @ ''Price must be greater than or equal to 0'')"
proof -
  let ?d = "\<lparr> data_name = Some ''ab'', data_description = Absent, data_price = Some (- 1),
       data_category = Some ''CASA'', data_imageUrl = Absent, data_active = None \<rparr>"
  let ?ds = "''Name must be at least 3 characters; '' @ ''Price must be greater than or equal to 0''"
  let ?e = "ApiError \<lparr> statusCode = 400, message = ''Validation Failed'',
              details = Some ?ds, timestamp = 0, path = ''/api/products'' \<rparr>"
  have tr: "trim ''ab'' = ''ab''"
    by (simp add: trim_def is_space_def)
  then have f: "fst (createProduct init_state 0 0 ?d) = Inl ?e"
    by (simp add: createProduct_unfold throwApiError_def createApiError_def setLoading_def Let_def
        validateProductData_def nameErrors_create priceErrors_create categoryErrors_create
        descriptionErrors_create)
  note t = createProduct_reports_every_violation
    [where s = init_state and now = 0 and ?now2.0 = 0 and d = ?d and e = ?e]
  from t f obtain ds where
    e: "?e = ApiError \<lparr> statusCode = 400, message = ''Validation Failed'',
                         details = Some ds, timestamp = 0, path = ''/api/products'' \<rparr>"
    and n: "case data_name ?d of
                 None \<Rightarrow> sublist ''Name is required'' ds
               | Some n \<Rightarrow>
                   (trim n = [] \<longrightarrow> sublist ''Name is required'' ds)
                   \<and> (trim n \<noteq> [] \<and> length n < 3 \<longrightarrow>
                        sublist ''Name must be at least 3 characters'' ds)
                   \<and> (trim n \<noteq> [] \<and> 200 < length n \<longrightarrow>
                        sublist ''Name must not exceed 200 characters'' ds)"
    and p: "case data_price ?d of
                 None \<Rightarrow> sublist ''Price is required'' ds
               | Some p \<Rightarrow>
                   (p < 0 \<longrightarrow> sublist ''Price must be greater than or equal to 0'' ds)
                   \<and> (999999.99 < p \<longrightarrow> sublist ''Price must not exceed 999999.99'' ds)"
    by blast
  from e have ds: "ds = ?ds" by simp
  from n tr have "sublist ''Name must be at least 3 characters'' ds" by simp
  moreover from p have "sublist ''Price must be greater than or equal to 0'' ds" by simp
  ultimately show ?thesis using f tr by (simp only: ds) simp
qed

text \<open>
  C5, as the claim states it, fails: the name \<^verbatim>\<open>" ab "\<close> has the trimmed length 2,
  below 3, and yet the name rule passes and the product is created.
\<close>

theorem name_trimmed_length_counterexample:
  "length (trim '' ab '') = 2
   \<and> nameErrors \<lparr> data_name = Some '' ab '', data_description = Absent, data_price = Some 10,
                   data_category = Some ''CASA'', data_imageUrl = Absent, data_active = None \<rparr>
        False = []
   \<and> fst (createProduct init_state 0 0
        \<lparr> data_name = Some '' ab '', data_description = Absent, data_price = Some 10,
          data_category = Some ''CASA'', data_imageUrl = Absent, data_active = None \<rparr>) =
       Inr \<lparr> id_p = 9, name = '' ab '', description = None, price = 10, category = ''CASA'',
             active = True, imageUrl = None, createdAt = 0, updatedAt = 0 \<rparr>"
  by (simp add: createProduct_unfold validateProductData_def nameErrors_def priceErrors_def
      categoryErrors_def descriptionErrors_def validCategories_def trim_def is_space_def
      setLoading_def init_state_def Let_def)

text \<open>
  C5, amended. The name validation of \<^const>\<open>createProduct\<close> tests emptiness on the
  trimmed name and the bounds 3 and 200 on the length of the name as given: the name
  rule is violated exactly when the name is absent, or its trimmed length is 0, or its
  untrimmed length is below 3 or above 200; it passes exactly when the trimmed length
  is positive and the untrimmed length lies between 3 and 200; and whenever it is
  violated \<^const>\<open>createProduct\<close> fails with the error 400 \<^verbatim>\<open>Validation Failed\<close>.
\<close>

theorem createProduct_name_rule:
  "(nameErrors d False \<noteq> [] \<longleftrightarrow>
      (case data_name d of
         None \<Rightarrow> True
       | Some n \<Rightarrow> length (trim n) = 0 \<or> length n < 3 \<or> 200 < length n))
   \<and> (nameErrors d False = [] \<longleftrightarrow>
        (\<exists>n. data_name d = Some n \<and> 0 < length (trim n) \<and> 3 \<le> length n \<and> length n \<le> 200))
   \<and> (nameErrors d False \<noteq> [] \<longrightarrow>
        (\<exists>ds. fst (createProduct s now now2 d) =
           Inl (ApiError \<lparr> statusCode = 400, message = ''Validation Failed'',
                            details = Some ds, timestamp = now,
                            path = ''/api/products'' \<rparr>)))"
proof (intro conjI impI)
  show "nameErrors d False \<noteq> [] \<longleftrightarrow>
      (case data_name d of
         None \<Rightarrow> True
       | Some n \<Rightarrow> length (trim n) = 0 \<or> length n < 3 \<or> 200 < length n)"
    by (simp add: nameErrors_create split: option.splits)
  show "nameErrors d False = [] \<longleftrightarrow>
        (\<exists>n. data_name d = Some n \<and> 0 < length (trim n) \<and> 3 \<le> length n \<and> length n \<le> 200)"
    by (auto simp: nameErrors_create split: option.splits)
next
  assume "nameErrors d False \<noteq> []"
  then have "validateProductData d False \<noteq> []"
    by (simp add: validateProductData_def)
  then show "\<exists>ds. fst (createProduct s now now2 d) =
           Inl (ApiError \<lparr> statusCode = 400, message = ''Validation Failed'',
                            details = Some ds, timestamp = now,
                            path = ''/api/products'' \<rparr>)"
    by (simp add: createProduct_unfold throwApiError_def createApiError_def Let_def)
qed

theorem createProduct_name_rule_witness:
  "nameErrors \<lparr> data_name = Some ''ab'', data_description = Absent, data_price = Some 10,
                 data_category = Some ''CASA'', data_imageUrl = Absent, data_active = None \<rparr>
      False \<noteq> []
   \<and> (\<exists>ds. fst (createProduct init_state 0 0
               \<lparr> data_name = Some ''ab'', data_description = Absent, data_price = Some 10,
                 data_category = Some ''CASA'', data_imageUrl = Absent, data_active = None \<rparr>) =
           Inl (ApiError \<lparr> statusCode = 400, message = ''Validation Failed'',
                            details = Some ds, timestamp = 0,
                            path = ''/api/products'' \<rparr>))"
proof -
  let ?d = "\<lparr> data_name = Some ''ab'', data_description = Absent, data_price = Some 10,
                 data_category = Some ''CASA'', data_imageUrl = Absent, data_active = None \<rparr>"
  have ne: "nameErrors ?d False \<noteq> []"
    by (simp add: nameErrors_def trim_def is_space_def)
  with createProduct_name_rule [of ?d init_state 0 0] show ?thesis by blast
qed

section \<open>Properties of the operations on the table\<close>

lemma findIndex_Some:
  "findIndex P xs = Some k \<Longrightarrow> k < length xs \<and> P (xs ! k)"
proof (induction xs arbitrary: k)
  case Nil
  then show ?case by simp
next
  case (Cons x xs)
  then show ?case
    by (cases k) (auto split: if_splits option.splits)
qed

lemma findIndex_None_iff: "findIndex P xs = None \<longleftrightarrow> find P xs = None"
  by (induction xs) (auto split: option.splits)

lemma findIndex_find:
  "find P xs = Some x \<Longrightarrow> \<exists>k. findIndex P xs = Some k \<and> xs ! k = x"
  by (induction xs) (auto split: if_splits)

text \<open>
  C6. Whenever one of the five operations fails, the table \<^const>\<open>mockProducts\<close> and the
  list held by \<^const>\<open>productsSubject\<close> are after the call what they were before it.
\<close>

theorem failed_operation_changes_nothing:
  "(isl (fst (getProducts s filters pagination)) \<longrightarrow>
      mockProducts (snd (getProducts s filters pagination)) = mockProducts s
      \<and> productsSubject (snd (getProducts s filters pagination)) = productsSubject s)
   \<and> (isl (fst (getProductById s now i1)) \<longrightarrow>
        mockProducts (snd (getProductById s now i1)) = mockProducts s
        \<and> productsSubject (snd (getProductById s now i1)) = productsSubject s)
   \<and> (isl (fst (createProduct s now now2 d1)) \<longrightarrow>
        mockProducts (snd (createProduct s now now2 d1)) = mockProducts s
        \<and> productsSubject (snd (createProduct s now now2 d1)) = productsSubject s)
   \<and> (isl (fst (updateProduct s now i2 d2)) \<longrightarrow>
        mockProducts (snd (updateProduct s now i2 d2)) = mockProducts s
        \<and> productsSubject (snd (updateProduct s now i2 d2)) = productsSubject s)
   \<and> (isl (fst (deleteProduct s now i3)) \<longrightarrow>
        mockProducts (snd (deleteProduct s now i3)) = mockProducts s
        \<and> productsSubject (snd (deleteProduct s now i3)) = productsSubject s)"
proof (intro conjI impI)
  assume "isl (fst (getProducts s filters pagination))"
  then show "mockProducts (snd (getProducts s filters pagination)) = mockProducts s"
    and "productsSubject (snd (getProducts s filters pagination)) = productsSubject s"
    by (auto simp: getProducts_def setLoading_def Let_def split: if_splits)
next
  show "mockProducts (snd (getProductById s now i1)) = mockProducts s"
    and "productsSubject (snd (getProductById s now i1)) = productsSubject s"
    by (auto simp: getProductById_def throwApiError_def setLoading_def Let_def
        split: option.splits)
next
  assume "isl (fst (createProduct s now now2 d1))"
  then show "mockProducts (snd (createProduct s now now2 d1)) = mockProducts s"
    and "productsSubject (snd (createProduct s now now2 d1)) = productsSubject s"
    by (auto simp: createProduct_unfold throwApiError_def setLoading_def Let_def split: if_splits)
next
  assume "isl (fst (updateProduct s now i2 d2))"
  then show "mockProducts (snd (updateProduct s now i2 d2)) = mockProducts s"
    and "productsSubject (snd (updateProduct s now i2 d2)) = productsSubject s"
    by (auto simp: updateProduct_unfold throwApiError_def setLoading_def Let_def
        split: if_splits option.splits)
next
  assume "isl (fst (deleteProduct s now i3))"
  then show "mockProducts (snd (deleteProduct s now i3)) = mockProducts s"
    and "productsSubject (snd (deleteProduct s now i3)) = productsSubject s"
    by (auto simp: deleteProduct_unfold throwApiError_def setLoading_def Let_def
        split: if_splits option.splits)
qed

lemma validate_emptyPatch_create:
  "validateProductData emptyPatch False =
     [''Name is required'', ''Price is required'', ''Category is required'']"
  by (simp add: validateProductData_def nameErrors_def priceErrors_def categoryErrors_def
      descriptionErrors_def emptyPatch_def)

lemma seed_ids: "map id_p seedProducts = [1, 2, 3, 4, 5, 6, 7, 8]"
  by (simp add: seedProducts_def seed_defs)

lemma find_seed_None: "i \<notin> {1, 2, 3, 4, 5, 6, 7, 8} \<Longrightarrow> find (\<lambda>p. id_p p = i) seedProducts = None"
  using seed_ids by (auto simp: find_None_iff seedProducts_def)

theorem failed_operation_changes_nothing_witness:
  "isl (fst (getProducts init_state None (Some \<lparr>page = Some (- 1), param_pageSize = None\<rparr>)))
   \<and> mockProducts (snd (getProducts init_state None
                          (Some \<lparr>page = Some (- 1), param_pageSize = None\<rparr>))) = seedProducts
   \<and> productsSubject (snd (getProducts init_state None
                             (Some \<lparr>page = Some (- 1), param_pageSize = None\<rparr>))) = seedProducts
   \<and> isl (fst (getProductById init_state 0 99))
   \<and> mockProducts (snd (getProductById init_state 0 99)) = seedProducts
   \<and> isl (fst (createProduct init_state 0 0 emptyPatch))
   \<and> mockProducts (snd (createProduct init_state 0 0 emptyPatch)) = seedProducts
   \<and> productsSubject (snd (createProduct init_state 0 0 emptyPatch)) = seedProducts
   \<and> isl (fst (updateProduct init_state 0 99 emptyPatch))
   \<and> mockProducts (snd (updateProduct init_state 0 99 emptyPatch)) = seedProducts
   \<and> productsSubject (snd (updateProduct init_state 0 99 emptyPatch)) = seedProducts
   \<and> isl (fst (deleteProduct init_state 0 99))
   \<and> mockProducts (snd (deleteProduct init_state 0 99)) = seedProducts
   \<and> productsSubject (snd (deleteProduct init_state 0 99)) = seedProducts"
proof -
  have nf: "find (\<lambda>p. id_p p = 99) (mockProducts init_state) = None"
    by (simp add: init_state_def find_seed_None)
  then have nfi: "findIndex (\<lambda>p. id_p p = 99) (mockProducts init_state) = None"
    by (simp add: findIndex_None_iff)
  have a: "isl (fst (getProducts init_state None (Some \<lparr>page = Some (- 1), param_pageSize = None\<rparr>)))"
    by (simp add: getProducts_def or_default_def Let_def)
  have b: "isl (fst (getProductById init_state 0 99))"
    using nf by (simp add: getProductById_def invalidId_def setLoading_def Let_def)
  have c: "isl (fst (createProduct init_state 0 0 emptyPatch))"
    by (simp add: createProduct_unfold validate_emptyPatch_create throwApiError_def Let_def)
  have d: "isl (fst (updateProduct init_state 0 99 emptyPatch))"
    using nfi by (simp add: updateProduct_unfold invalidId_def setLoading_def throwApiError_def Let_def)
  have e: "isl (fst (deleteProduct init_state 0 99))"
    using nfi by (simp add: deleteProduct_unfold invalidId_def setLoading_def throwApiError_def Let_def)
  have i: "mockProducts init_state = seedProducts" "productsSubject init_state = seedProducts"
    by (simp_all add: init_state_def)
  note t = failed_operation_changes_nothing
    [where s = init_state and filters = None
       and pagination = "Some \<lparr>page = Some (- 1), param_pageSize = None\<rparr>"
       and now = 0 and ?i1.0 = 99 and ?now2.0 = 0 and ?d1.0 = emptyPatch
       and ?i2.0 = 99 and ?d2.0 = emptyPatch and ?i3.0 = 99]
  from t a b c d e show ?thesis
    by (simp only: i)
qed

text \<open>
  In every state of every run the identifiers of the table are positive, and so are
  the counter and the identifiers of the products still to be written: one lemma for
  each step, then rule induction over \<^const>\<open>reachable\<close>.
\<close>

lemma getProducts_ids:
  "mockProducts (snd (getProducts s filters pagination)) = mockProducts s
   \<and> nextId (snd (getProducts s filters pagination)) = nextId s"
  by (simp add: getProducts_def setLoading_def Let_def)

lemma getProductById_ids:
  "mockProducts (snd (getProductById s now i)) = mockProducts s
   \<and> nextId (snd (getProductById s now i)) = nextId s"
  by (simp add: getProductById_def throwApiError_def setLoading_def Let_def split: option.splits)

lemma createProduct_call_ids:
  assumes "createProduct_call s now now2 d = (r, s')" and "1 \<le> nextId s"
  shows "mockProducts s' = mockProducts s \<and> 1 \<le> nextId s'
         \<and> (case r of Inl e \<Rightarrow> True | Inr p \<Rightarrow> 1 \<le> id_p p)"
  using assms
  by (auto simp: createProduct_call_def throwApiError_def setLoading_def Let_def
      split: if_splits)

lemma createProduct_emit_ids:
  "mockProducts (snd (createProduct_emit s p)) = mockProducts s @ [p]
   \<and> nextId (snd (createProduct_emit s p)) = nextId s"
  by (simp add: createProduct_emit_def setLoading_def Let_def)

lemma updateProduct_call_state:
  "mockProducts (snd (updateProduct_call s now i d)) = mockProducts s
   \<and> nextId (snd (updateProduct_call s now i d)) = nextId s"
  by (simp add: updateProduct_call_def throwApiError_def setLoading_def Let_def
      split: option.splits)

lemma updateProduct_call_Inr:
  assumes "fst (updateProduct_call s now i d) = Inr (k, u)"
  shows "1 \<le> i \<and> validateProductData d True = []
         \<and> findIndex (\<lambda>p. id_p p = i) (mockProducts s) = Some k
         \<and> id_p u = i \<and> createdAt u = createdAt (mockProducts s ! k)"
proof -
  from assms have i: "\<not> invalidId i"
    by (auto simp: updateProduct_call_def throwApiError_def Let_def split: if_splits)
  with assms have v: "validateProductData d True = []"
    by (auto simp: updateProduct_call_def throwApiError_def Let_def split: if_splits)
  from assms i v have k: "findIndex (\<lambda>p. id_p p = i) (mockProducts s) = Some k"
    by (auto simp: updateProduct_call_def throwApiError_def setLoading_def Let_def
        split: option.splits)
  from assms i v k have "id_p u = i \<and> createdAt u = createdAt (mockProducts s ! k)"
    by (auto simp: updateProduct_call_def setLoading_def Let_def)
  with i v k show ?thesis by (simp add: invalidId_def)
qed

lemma updateProduct_call_success:
  assumes "1 \<le> i" and "validateProductData d True = []"
    and "findIndex (\<lambda>p. id_p p = i) (mockProducts s) = Some k"
  shows "fst (updateProduct_call s now i d) =
           Inr (k,
                \<lparr> id_p = i,
                  name = (case data_name d of None \<Rightarrow> name (mockProducts s ! k) | Some v \<Rightarrow> v),
                  description =
                    (case data_description d of
                       Absent \<Rightarrow> description (mockProducts s ! k) | Present v \<Rightarrow> v),
                  price = (case data_price d of None \<Rightarrow> price (mockProducts s ! k) | Some v \<Rightarrow> v),
                  category =
                    (case data_category d of None \<Rightarrow> category (mockProducts s ! k) | Some v \<Rightarrow> v),
                  active = (case data_active d of None \<Rightarrow> active (mockProducts s ! k) | Some v \<Rightarrow> v),
                  imageUrl =
                    (case data_imageUrl d of
                       Absent \<Rightarrow> imageUrl (mockProducts s ! k) | Present v \<Rightarrow> v),
                  createdAt = createdAt (mockProducts s ! k),
                  updatedAt = now \<rparr>)"
  using assms by (simp add: updateProduct_call_def invalidId_def setLoading_def Let_def)

lemma updateProduct_emit_Some:
  assumes "updateProduct_emit t k u = Some (u', t')"
  shows "u' = u \<and> k \<le> length (mockProducts t) \<and> nextId t' = nextId t
         \<and> mockProducts t' =
             (if k < length (mockProducts t) then (mockProducts t)[k := u]
              else mockProducts t @ [u])"
  using assms
  by (auto simp: updateProduct_emit_def js_assign_def setLoading_def split: if_splits)

lemma updateProduct_emit_in_range:
  assumes "k < length (mockProducts t)"
  shows "updateProduct_emit t k u =
           Some (u, t\<lparr> mockProducts := (mockProducts t)[k := u],
                       productsSubject := (mockProducts t)[k := u],
                       loadingSubject := False \<rparr>)"
  using assms by (simp add: updateProduct_emit_def js_assign_def setLoading_def)

lemma updateProduct_emit_ids:
  assumes "updateProduct_emit t k u = Some (u', t')"
    and "\<forall>p \<in> set (mockProducts t). 1 \<le> id_p p" and "1 \<le> id_p u"
  shows "\<forall>p \<in> set (mockProducts t'). 1 \<le> id_p p"
proof
  fix p
  assume p: "p \<in> set (mockProducts t')"
  from updateProduct_emit_Some [OF assms(1)]
  have "set (mockProducts t') \<subseteq> insert u (set (mockProducts t))"
    using set_update_subset_insert [of "mockProducts t" k u] by (auto split: if_splits)
  with p assms(2,3) show "1 \<le> id_p p" by auto
qed

lemma deleteProduct_call_state:
  "mockProducts (snd (deleteProduct_call s now i)) = mockProducts s
   \<and> nextId (snd (deleteProduct_call s now i)) = nextId s"
  by (simp add: deleteProduct_call_def throwApiError_def setLoading_def Let_def
      split: option.splits)

lemma deleteProduct_emit_ids:
  "set (mockProducts (snd (deleteProduct_emit s k))) \<subseteq> set (mockProducts s)
   \<and> nextId (snd (deleteProduct_emit s k)) = nextId s"
  by (auto simp: deleteProduct_emit_def setLoading_def Let_def
      dest: in_set_takeD in_set_dropD)

lemma reachable_ids:
  "reachable s P \<Longrightarrow>
     (\<forall>p \<in> set (mockProducts s). 1 \<le> id_p p) \<and> 1 \<le> nextId s
     \<and> (\<forall>p. PendingCreate p \<in> P \<longrightarrow> 1 \<le> id_p p)
     \<and> (\<forall>k u. PendingUpdate k u \<in> P \<longrightarrow> 1 \<le> id_p u)"
proof (induction rule: reachable.induct)
  case reachable_init
  have "\<forall>i \<in> set (map id_p seedProducts). 1 \<le> i"
    by (simp only: seed_ids) simp
  then show ?case by (simp add: init_state_def)
next
  case (reachable_setLoading s P b)
  then show ?case by (simp add: setLoading_def)
next
  case (reachable_getProducts s P filters pagination)
  then show ?case by (simp only: getProducts_ids) simp
next
  case (reachable_getProductById s P now i)
  then show ?case by (simp only: getProductById_ids) simp
next
  case (reachable_createProduct_call s P now now2 d r s')
  from createProduct_call_ids [OF reachable_createProduct_call.hyps(2)]
    reachable_createProduct_call.IH
  show ?case by (cases r) auto
next
  case (reachable_createProduct_emit s P p)
  then show ?case by (auto simp: createProduct_emit_ids)
next
  case (reachable_updateProduct_call s P now i d r s')
  from reachable_updateProduct_call.hyps(2) updateProduct_call_state [of s now i d]
  have st: "mockProducts s' = mockProducts s" "nextId s' = nextId s" by auto
  show ?case
  proof (cases r)
    case (Inl e)
    with st reachable_updateProduct_call.IH show ?thesis by simp
  next
    case (Inr ku)
    obtain k u where ku: "ku = (k, u)" by (cases ku)
    with Inr reachable_updateProduct_call.hyps(2)
    have "fst (updateProduct_call s now i d) = Inr (k, u)" by simp
    from updateProduct_call_Inr [OF this] have "1 \<le> id_p u" by simp
    with st Inr ku reachable_updateProduct_call.IH show ?thesis by auto
  qed
next
  case (reachable_updateProduct_emit s P k u u' s')
  from reachable_updateProduct_emit.IH reachable_updateProduct_emit.hyps(2)
  have u: "1 \<le> id_p u" by blast
  from updateProduct_emit_ids [OF reachable_updateProduct_emit.hyps(3) _ u]
    updateProduct_emit_Some [OF reachable_updateProduct_emit.hyps(3)]
    reachable_updateProduct_emit.IH
  show ?case by simp
next
  case (reachable_deleteProduct_call s P now i r s')
  from reachable_deleteProduct_call.hyps(2) deleteProduct_call_state [of s now i]
  have "mockProducts s' = mockProducts s" "nextId s' = nextId s" by auto
  with reachable_deleteProduct_call.IH show ?case by (cases r) auto
next
  case (reachable_deleteProduct_emit s P k)
  with deleteProduct_emit_ids [of s k] show ?case by auto
qed

lemma validate_emptyPatch_update: "validateProductData emptyPatch True = []"
  by (simp add: validateProductData_def nameErrors_def priceErrors_def categoryErrors_def
      descriptionErrors_def emptyPatch_def)

lemma find_list_update:
  assumes "findIndex P xs = Some k" and "P u"
  shows "find P (xs[k := u]) = Some u"
  using assms
proof (induction xs arbitrary: k)
  case Nil
  then show ?case by simp
next
  case (Cons x xs)
  then show ?case
    by (cases k) (auto split: if_splits option.splits)
qed

lemma find_findIndex:
  "findIndex P xs = Some k \<Longrightarrow> find P xs = Some (xs ! k)"
proof (induction xs arbitrary: k)
  case Nil
  then show ?case by simp
next
  case (Cons x xs)
  then show ?case
    by (cases k) (auto split: if_splits option.splits)
qed

lemma updateProduct_run:
  "updateProduct s now i d =
     (case updateProduct_call s now i d of
        (Inl e, s1) \<Rightarrow> (Inl e, s1)
      | (Inr (k, u), s1) \<Rightarrow>
          (Inr u, s1\<lparr> mockProducts := (mockProducts s)[k := u],
                       productsSubject := (mockProducts s)[k := u],
                       loadingSubject := False \<rparr>))"
proof (cases "fst (updateProduct_call s now i d)")
  case (Inl e)
  then show ?thesis
    by (cases "updateProduct_call s now i d") (simp add: updateProduct_def)
next
  case (Inr ku)
  obtain k u where ku: "ku = (k, u)" by (cases ku)
  with Inr have c: "fst (updateProduct_call s now i d) = Inr (k, u)" by simp
  from updateProduct_call_Inr [OF c] have "k < length (mockProducts s)"
    by (auto dest: findIndex_in_range)
  with updateProduct_call_state [of s now i d]
  have "k < length (mockProducts (snd (updateProduct_call s now i d)))" by simp
  from updateProduct_emit_in_range [OF this, of u] c updateProduct_call_state [of s now i d]
  show ?thesis
    by (cases "updateProduct_call s now i d") (simp add: updateProduct_def)
qed

text \<open>
  With a deletion in flight an update lands on the slot of another product: product 1
  is deleted and product 2 updated, both called before either emits. The update found
  product 2 at index 1; when it emits, the deletion has moved product 3 there.
\<close>

lemma update_with_delete_in_flight:
  "fst (deleteProduct_call init_state 0 1) = Inr 0
   \<and> fst (updateProduct_call (snd (deleteProduct_call init_state 0 1)) 1800000000000 2 emptyPatch)
       = Inr (1, seed2\<lparr>updatedAt := 1800000000000\<rparr>)
   \<and> map id_p (mockProducts (snd (deleteProduct_emit
        (snd (updateProduct_call (snd (deleteProduct_call init_state 0 1))
               1800000000000 2 emptyPatch)) 0)))
       = [2, 3, 4, 5, 6, 7, 8]
   \<and> map_option (\<lambda>r. map id_p (mockProducts (snd r)))
        (updateProduct_emit
           (snd (deleteProduct_emit
              (snd (updateProduct_call (snd (deleteProduct_call init_state 0 1))
                     1800000000000 2 emptyPatch)) 0))
           1 (seed2\<lparr>updatedAt := 1800000000000\<rparr>))
       = Some [2, 2, 4, 5, 6, 7, 8]"
proof -
  let ?T = "1800000000000 :: int"
  let ?u = "seed2\<lparr>updatedAt := ?T\<rparr>"
  have ids: "id_p seed1 = 1" "id_p seed2 = 2" "id_p seed3 = 3" "id_p seed4 = 4"
    "id_p seed5 = 5" "id_p seed6 = 6" "id_p seed7 = 7" "id_p seed8 = 8"
    by (simp_all add: seed_defs)
  have d: "deleteProduct_call init_state 0 1 = (Inr 0, init_state\<lparr>loadingSubject := True\<rparr>)"
    by (simp add: deleteProduct_call_def invalidId_def setLoading_def Let_def init_state_def
        seedProducts_def ids)
  have k: "findIndex (\<lambda>p. id_p p = 2) (mockProducts (init_state\<lparr>loadingSubject := True\<rparr>)) = Some 1"
    by (simp add: init_state_def seedProducts_def ids)
  have "mockProducts (init_state\<lparr>loadingSubject := True\<rparr>) ! 1 = seed2"
    by (simp add: init_state_def seedProducts_def)
  with updateProduct_call_success [OF _ validate_emptyPatch_update k, of ?T]
  have c: "fst (updateProduct_call (init_state\<lparr>loadingSubject := True\<rparr>) ?T 2 emptyPatch)
             = Inr (1, ?u)"
    by (simp add: emptyPatch_def seed2_def)
  have t: "mockProducts (snd (updateProduct_call (init_state\<lparr>loadingSubject := True\<rparr>) ?T 2 emptyPatch))
             = seedProducts"
    by (simp add: updateProduct_call_state init_state_def)
  have e: "mockProducts (snd (deleteProduct_emit
             (snd (updateProduct_call (init_state\<lparr>loadingSubject := True\<rparr>) ?T 2 emptyPatch)) 0))
           = [seed2, seed3, seed4, seed5, seed6, seed7, seed8]"
    by (simp add: deleteProduct_emit_def setLoading_def Let_def t) (simp add: seedProducts_def)
  then have "updateProduct_emit
           (snd (deleteProduct_emit
              (snd (updateProduct_call (init_state\<lparr>loadingSubject := True\<rparr>) ?T 2 emptyPatch)) 0))
           1 ?u \<noteq> None"
    by (simp add: updateProduct_emit_def js_assign_def)
  then obtain u' t' where
    s: "updateProduct_emit
           (snd (deleteProduct_emit
              (snd (updateProduct_call (init_state\<lparr>loadingSubject := True\<rparr>) ?T 2 emptyPatch)) 0))
           1 ?u = Some (u', t')"
    by auto
  from updateProduct_emit_Some [OF s] e
  have "mockProducts t' = [seed2, ?u, seed4, seed5, seed6, seed7, seed8]"
    by simp
  then have "map id_p (mockProducts t') = [2, 2, 4, 5, 6, 7, 8]"
    by (simp add: ids)
  with d c e s show ?thesis by (simp add: ids)
qed

text \<open>
  C7, as the claim states it, fails: \<^verbatim>\<open>updatedAt\<close> is set to the reading of the clock,
  which nothing compares with the stored value. The empty patch applied to seed
  product 1 at the reading that product 1 carries returns product 1 as it was. And
  with every reading later than the seed: a product created at one reading of the
  clock and updated with the empty patch at the same reading (its creation has emitted,
  and the clock has not ticked since) is returned as it was stored, \<^verbatim>\<open>updatedAt\<close> not
  advanced.
\<close>

theorem update_empty_patch_counterexample:
  "mockProducts init_state ! 0 = seed1 \<and> id_p seed1 = 1 \<and> updatedAt seed1 = 1729435500000
   \<and> fst (updateProduct init_state 1729435500000 1 emptyPatch) = Inr seed1
   \<and> fst (createProduct init_state 1800000000000 1800000000000
        \<lparr> data_name = Some ''Caneta'', data_description = Absent, data_price = Some 10,
          data_category = Some ''OUTROS'', data_imageUrl = Absent, data_active = None \<rparr>) =
       Inr \<lparr> id_p = 9, name = ''Caneta'', description = None, price = 10,
             category = ''OUTROS'', active = True, imageUrl = None,
             createdAt = 1800000000000, updatedAt = 1800000000000 \<rparr>
   \<and> fst (updateProduct
        (snd (createProduct init_state 1800000000000 1800000000000
           \<lparr> data_name = Some ''Caneta'', data_description = Absent, data_price = Some 10,
             data_category = Some ''OUTROS'', data_imageUrl = Absent, data_active = None \<rparr>))
        1800000000000 9 emptyPatch) =
       Inr \<lparr> id_p = 9, name = ''Caneta'', description = None, price = 10,
             category = ''OUTROS'', active = True, imageUrl = None,
             createdAt = 1800000000000, updatedAt = 1800000000000 \<rparr>"
proof -
  let ?T = "1800000000000 :: int"
  let ?d = "\<lparr> data_name = Some ''Caneta'', data_description = Absent, data_price = Some 10,
          data_category = Some ''OUTROS'', data_imageUrl = Absent, data_active = None \<rparr>"
  let ?p = "\<lparr> id_p = 9, name = ''Caneta'', description = None, price = 10,
             category = ''OUTROS'', active = True, imageUrl = None,
             createdAt = ?T, updatedAt = ?T \<rparr>"
  have k: "findIndex (\<lambda>p. id_p p = 1) (mockProducts init_state) = Some 0"
    by (simp add: init_state_def seedProducts_def seed1_def)
  have z: "mockProducts init_state ! 0 = seed1"
    by (simp add: init_state_def seedProducts_def)
  from updateProduct_call_success [OF _ validate_emptyPatch_update k, of 1729435500000] z
  have "fst (updateProduct_call init_state 1729435500000 1 emptyPatch) = Inr (0, seed1)"
    by (simp add: emptyPatch_def seed1_def)
  then have a: "fst (updateProduct init_state 1729435500000 1 emptyPatch) = Inr seed1"
    by (cases "updateProduct_call init_state 1729435500000 1 emptyPatch")
       (simp add: updateProduct_run)
  have v: "validateProductData ?d False = []"
    by (simp add: validateProductData_def nameErrors_create priceErrors_create
        categoryErrors_create descriptionErrors_create trim_def is_space_def)
  have c: "createProduct init_state ?T ?T ?d =
             (Inr ?p, init_state\<lparr> nextId := 10, mockProducts := seedProducts @ [?p],
                                  productsSubject := seedProducts @ [?p] \<rparr>)"
    by (simp add: createProduct_unfold v setLoading_def Let_def init_state_def)
  have ids: "id_p seed1 = 1" "id_p seed2 = 2" "id_p seed3 = 3" "id_p seed4 = 4"
    "id_p seed5 = 5" "id_p seed6 = 6" "id_p seed7 = 7" "id_p seed8 = 8"
    by (simp_all add: seed_defs)
  let ?s = "init_state\<lparr> nextId := 10, mockProducts := seedProducts @ [?p],
                         productsSubject := seedProducts @ [?p] \<rparr>"
  have k9: "findIndex (\<lambda>p. id_p p = 9) (mockProducts ?s) = Some 8"
    by (simp add: seedProducts_def ids)
  have z9: "mockProducts ?s ! 8 = ?p"
    by (simp add: seedProducts_def)
  from updateProduct_call_success [OF _ validate_emptyPatch_update k9, of ?T]
  have "fst (updateProduct_call ?s ?T 9 emptyPatch) = Inr (8, ?p)"
    by (simp only: z9) (simp add: emptyPatch_def)
  then have b: "fst (updateProduct ?s ?T 9 emptyPatch) = Inr ?p"
    by (cases "updateProduct_call ?s ?T 9 emptyPatch") (simp add: updateProduct_run)
  from z a c b show ?thesis by (simp add: seed1_def)
qed

text \<open>
  C7, amended. In every state of the service, the empty patch applied to an existing
  product returns that product with every field as stored except \<^verbatim>\<open>updatedAt\<close>, which is
  the clock reading of the call (so it advances exactly when that reading is later than
  the stored value). And no update ever alters the stored product's \<^verbatim>\<open>id\<close> and
  \<^verbatim>\<open>createdAt\<close>: the product that the call of an update builds carries the \<^verbatim>\<open>id\<close> and the
  \<^verbatim>\<open>createdAt\<close> of the product it found stored under the identifier, and its emission,
  at whatever state it happens, returns and stores that very product, in one slot of the
  table, leaving the others as they are; run without interleaving, the product stored
  under the identifier afterwards is the one returned.
\<close>

theorem updateProduct_frame:
  "(reachable s P \<and> find (\<lambda>p. id_p p = i) (mockProducts s) = Some old \<longrightarrow>
      (\<exists>k. fst (updateProduct_call s now i emptyPatch) = Inr (k, old\<lparr>updatedAt := now\<rparr>))
      \<and> fst (updateProduct s now i emptyPatch) = Inr (old\<lparr>updatedAt := now\<rparr>)
      \<and> (updatedAt old < updatedAt (old\<lparr>updatedAt := now\<rparr>) \<longleftrightarrow> updatedAt old < now))
   \<and> (fst (updateProduct_call s now j d) = Inr (k, u) \<longrightarrow>
        find (\<lambda>q. id_p q = j) (mockProducts s) = Some (mockProducts s ! k)
        \<and> id_p u = id_p (mockProducts s ! k)
        \<and> createdAt u = createdAt (mockProducts s ! k))
   \<and> (updateProduct_emit t k u = Some (u', t') \<longrightarrow>
        u' = u \<and> k < length (mockProducts t') \<and> mockProducts t' ! k = u
        \<and> (\<forall>m. m < length (mockProducts t) \<and> m \<noteq> k \<longrightarrow>
              mockProducts t' ! m = mockProducts t ! m))
   \<and> (fst (updateProduct s now j d) = Inr p' \<longrightarrow>
        (\<exists>old'. find (\<lambda>q. id_p q = j) (mockProducts s) = Some old'
           \<and> id_p p' = id_p old' \<and> createdAt p' = createdAt old'
           \<and> find (\<lambda>q. id_p q = j) (mockProducts (snd (updateProduct s now j d))) = Some p'))"
proof (intro conjI)
  show "reachable s P \<and> find (\<lambda>p. id_p p = i) (mockProducts s) = Some old \<longrightarrow>
      (\<exists>k. fst (updateProduct_call s now i emptyPatch) = Inr (k, old\<lparr>updatedAt := now\<rparr>))
      \<and> fst (updateProduct s now i emptyPatch) = Inr (old\<lparr>updatedAt := now\<rparr>)
      \<and> (updatedAt old < updatedAt (old\<lparr>updatedAt := now\<rparr>) \<longleftrightarrow> updatedAt old < now)"
  proof
    assume a: "reachable s P \<and> find (\<lambda>p. id_p p = i) (mockProducts s) = Some old"
    then obtain k where k: "findIndex (\<lambda>p. id_p p = i) (mockProducts s) = Some k"
      and old: "mockProducts s ! k = old"
      using findIndex_find by fastforce
    from findIndex_Some [OF k] old have mem: "old \<in> set (mockProducts s)" and id: "id_p old = i"
      by auto
    with a reachable_ids have "1 \<le> i" by blast
    from updateProduct_call_success [OF this validate_emptyPatch_update k, of now] old id
    have c: "fst (updateProduct_call s now i emptyPatch) = Inr (k, old\<lparr>updatedAt := now\<rparr>)"
      by (cases old) (auto simp: emptyPatch_def)
    then have "fst (updateProduct s now i emptyPatch) = Inr (old\<lparr>updatedAt := now\<rparr>)"
      by (cases "updateProduct_call s now i emptyPatch") (simp add: updateProduct_run)
    with c show "(\<exists>k. fst (updateProduct_call s now i emptyPatch) = Inr (k, old\<lparr>updatedAt := now\<rparr>))
      \<and> fst (updateProduct s now i emptyPatch) = Inr (old\<lparr>updatedAt := now\<rparr>)
      \<and> (updatedAt old < updatedAt (old\<lparr>updatedAt := now\<rparr>) \<longleftrightarrow> updatedAt old < now)"
      by auto
  qed
next
  show "fst (updateProduct_call s now j d) = Inr (k, u) \<longrightarrow>
        find (\<lambda>q. id_p q = j) (mockProducts s) = Some (mockProducts s ! k)
        \<and> id_p u = id_p (mockProducts s ! k)
        \<and> createdAt u = createdAt (mockProducts s ! k)"
  proof
    assume "fst (updateProduct_call s now j d) = Inr (k, u)"
    from updateProduct_call_Inr [OF this]
    have k: "findIndex (\<lambda>p. id_p p = j) (mockProducts s) = Some k"
      and u: "id_p u = j" "createdAt u = createdAt (mockProducts s ! k)"
      by auto
    from findIndex_Some [OF k] have "id_p (mockProducts s ! k) = j" by simp
    with find_findIndex [OF k] u
    show "find (\<lambda>q. id_p q = j) (mockProducts s) = Some (mockProducts s ! k)
        \<and> id_p u = id_p (mockProducts s ! k)
        \<and> createdAt u = createdAt (mockProducts s ! k)"
      by simp
  qed
next
  show "updateProduct_emit t k u = Some (u', t') \<longrightarrow>
        u' = u \<and> k < length (mockProducts t') \<and> mockProducts t' ! k = u
        \<and> (\<forall>m. m < length (mockProducts t) \<and> m \<noteq> k \<longrightarrow>
              mockProducts t' ! m = mockProducts t ! m)"
  proof
    assume "updateProduct_emit t k u = Some (u', t')"
    from updateProduct_emit_Some [OF this]
    show "u' = u \<and> k < length (mockProducts t') \<and> mockProducts t' ! k = u
        \<and> (\<forall>m. m < length (mockProducts t) \<and> m \<noteq> k \<longrightarrow>
              mockProducts t' ! m = mockProducts t ! m)"
      by (auto simp: nth_append split: if_splits)
  qed
next
  show "fst (updateProduct s now j d) = Inr p' \<longrightarrow>
        (\<exists>old'. find (\<lambda>q. id_p q = j) (mockProducts s) = Some old'
           \<and> id_p p' = id_p old' \<and> createdAt p' = createdAt old'
           \<and> find (\<lambda>q. id_p q = j) (mockProducts (snd (updateProduct s now j d))) = Some p')"
  proof
    assume r: "fst (updateProduct s now j d) = Inr p'"
    obtain c s1 where cs: "updateProduct_call s now j d = (c, s1)"
      by (cases "updateProduct_call s now j d")
    with r obtain k u where c: "c = Inr (k, u)"
      by (cases c) (auto simp: updateProduct_run)
    with cs have call: "fst (updateProduct_call s now j d) = Inr (k, u)" by simp
    from r cs c have p': "p' = u" by (simp add: updateProduct_run)
    from cs c have tab: "mockProducts (snd (updateProduct s now j d)) = (mockProducts s)[k := u]"
      by (simp add: updateProduct_run)
    from updateProduct_call_Inr [OF call]
    have k: "findIndex (\<lambda>p. id_p p = j) (mockProducts s) = Some k"
      and u: "id_p u = j" "createdAt u = createdAt (mockProducts s ! k)"
      by auto
    from findIndex_Some [OF k] have "id_p (mockProducts s ! k) = j" by simp
    moreover from find_list_update [OF k, of u] u(1)
    have "find (\<lambda>q. id_p q = j) ((mockProducts s)[k := u]) = Some u" by simp
    ultimately
    show "\<exists>old'. find (\<lambda>q. id_p q = j) (mockProducts s) = Some old'
           \<and> id_p p' = id_p old' \<and> createdAt p' = createdAt old'
           \<and> find (\<lambda>q. id_p q = j) (mockProducts (snd (updateProduct s now j d))) = Some p'"
      using find_findIndex [OF k] u p' tab by simp
  qed
qed

theorem updateProduct_frame_witness:
  "reachable init_state {} \<and> find (\<lambda>p. id_p p = 1) (mockProducts init_state) = Some seed1
   \<and> fst (updateProduct_call init_state 1800000000000 1 emptyPatch) =
       Inr (0, seed1\<lparr>updatedAt := 1800000000000\<rparr>)
   \<and> fst (updateProduct init_state 1800000000000 1 emptyPatch) =
       Inr (seed1\<lparr>updatedAt := 1800000000000\<rparr>)
   \<and> updatedAt seed1 < 1800000000000
   \<and> id_p (seed1\<lparr>updatedAt := 1800000000000\<rparr>) = 1
   \<and> createdAt (seed1\<lparr>updatedAt := 1800000000000\<rparr>) = 1705314600000
   \<and> updateProduct_emit init_state 0 (seed1\<lparr>updatedAt := 1800000000000\<rparr>) \<noteq> None
   \<and> find (\<lambda>q. id_p q = 1)
        (mockProducts (snd (updateProduct init_state 1800000000000 1 emptyPatch))) =
       Some (seed1\<lparr>updatedAt := 1800000000000\<rparr>)"
proof -
  let ?T = "1800000000000 :: int"
  let ?u = "seed1\<lparr>updatedAt := ?T\<rparr>"
  have f: "find (\<lambda>p. id_p p = 1) (mockProducts init_state) = Some seed1"
    by (simp add: init_state_def seedProducts_def seed1_def)
  have z: "mockProducts init_state ! 0 = seed1"
    by (simp add: init_state_def seedProducts_def)
  have up: "updatedAt seed1 < ?T"
    by (simp add: seed1_def)
  have cr: "createdAt seed1 = 1705314600000" and i1: "id_p seed1 = 1"
    by (simp_all add: seed1_def)
  have e: "updateProduct_emit init_state 0 ?u \<noteq> None"
    by (simp add: updateProduct_emit_def js_assign_def init_state_def seedProducts_def)
  then obtain u' t' where e': "updateProduct_emit init_state 0 ?u = Some (u', t')" by auto
  note t = updateProduct_frame
    [where s = init_state and P = "{}" and i = 1 and old = seed1 and now = ?T
       and j = 1 and d = emptyPatch and k = 0 and u = ?u and p' = ?u
       and t = init_state and u' = u' and t' = t']
  from t reachable_init f
  have c: "\<exists>k. fst (updateProduct_call init_state ?T 1 emptyPatch) = Inr (k, ?u)"
    and r: "fst (updateProduct init_state ?T 1 emptyPatch) = Inr ?u"
    by blast+
  from c have c0: "fst (updateProduct_call init_state ?T 1 emptyPatch) = Inr (0, ?u)"
  proof
    fix k assume k: "fst (updateProduct_call init_state ?T 1 emptyPatch) = Inr (k, ?u)"
    from updateProduct_call_Inr [OF k]
    have "findIndex (\<lambda>p. id_p p = 1) (mockProducts init_state) = Some k" by simp
    moreover have "findIndex (\<lambda>p. id_p p = 1) (mockProducts init_state) = Some 0"
      by (simp add: init_state_def seedProducts_def seed1_def)
    ultimately have "k = 0" by simp
    with k show ?thesis by simp
  qed
  from t c0 z
  have p: "id_p ?u = id_p seed1 \<and> createdAt ?u = createdAt seed1"
    by simp
  from t e' have "u' = ?u" by blast
  from t r
  have s: "find (\<lambda>q. id_p q = 1)
             (mockProducts (snd (updateProduct init_state ?T 1 emptyPatch))) = Some ?u"
    by auto
  from reachable_init f c0 r up p cr i1 e s show ?thesis by simp
qed

text \<open>
  C9, as the claim states it, fails for the identifiers below 1, which no product
  carries: the test on the identifier comes first, so a patch that violates a field
  rule, sent to the identifier 0, is refused with 400 \<^verbatim>\<open>Bad Request\<close>
  (\<^verbatim>\<open>Invalid product ID\<close>), not with \<^verbatim>\<open>Validation Failed\<close>.
\<close>

theorem update_invalid_id_counterexample:
  "0 \<notin> set (map id_p (mockProducts init_state))
   \<and> validateProductData
        \<lparr> data_name = Some ''ab'', data_description = Absent, data_price = None,
          data_category = None, data_imageUrl = Absent, data_active = None \<rparr> True
       = [''Name must be at least 3 characters'']
   \<and> fst (updateProduct init_state 0 0
        \<lparr> data_name = Some ''ab'', data_description = Absent, data_price = None,
          data_category = None, data_imageUrl = Absent, data_active = None \<rparr>) =
       Inl (ApiError \<lparr> statusCode = 400, message = ''Bad Request'',
                        details = Some ''Invalid product ID'', timestamp = 0,
                        path = ''/api/products'' \<rparr>)"
  by (simp add: init_state_def seed_ids updateProduct_unfold invalidId_def throwApiError_def
      createApiError_def Let_def validateProductData_def nameErrors_def priceErrors_def
      categoryErrors_def descriptionErrors_def trim_def is_space_def)

text \<open>
  C9, amended. \<^const>\<open>updateProduct\<close> validates the patch before it looks the identifier
  up: for an identifier of at least 1 that no product carries and a patch that violates
  a field rule, it fails with 400 \<^verbatim>\<open>Validation Failed\<close> carrying the joined messages, not
  with 404; and it fails with 404 \<^verbatim>\<open>Not Found\<close> only when the identifier is at least 1, no
  product carries it, and the patch passes validation.
\<close>

theorem updateProduct_validates_before_lookup:
  "(1 \<le> i \<and> find (\<lambda>p. id_p p = i) (mockProducts s) = None
      \<and> validateProductData d True \<noteq> [] \<longrightarrow>
      fst (updateProduct s now i d) =
        Inl (ApiError \<lparr> statusCode = 400, message = ''Validation Failed'',
                         details = Some (join ''; '' (validateProductData d True)),
                         timestamp = now, path = ''/api/products'' \<rparr>))
   \<and> (fst (updateProduct s now i d) = Inl (ApiError a) \<and> statusCode a = 404 \<longrightarrow>
        message a = ''Not Found'' \<and> validateProductData d True = [] \<and> 1 \<le> i
        \<and> find (\<lambda>p. id_p p = i) (mockProducts s) = None)"
proof (rule conjI; rule impI)
  assume "1 \<le> i \<and> find (\<lambda>p. id_p p = i) (mockProducts s) = None
      \<and> validateProductData d True \<noteq> []"
  then show "fst (updateProduct s now i d) =
        Inl (ApiError \<lparr> statusCode = 400, message = ''Validation Failed'',
                         details = Some (join ''; '' (validateProductData d True)),
                         timestamp = now, path = ''/api/products'' \<rparr>)"
    by (simp add: updateProduct_unfold invalidId_def throwApiError_def createApiError_def Let_def)
next
  assume a: "fst (updateProduct s now i d) = Inl (ApiError a) \<and> statusCode a = 404"
  have inv: "\<not> invalidId i"
  proof
    assume "invalidId i"
    with a show False
      by (auto simp: updateProduct_unfold throwApiError_def createApiError_def Let_def)
  qed
  have val: "validateProductData d True = []"
  proof (rule ccontr)
    assume "validateProductData d True \<noteq> []"
    with a inv show False
      by (auto simp: updateProduct_unfold throwApiError_def createApiError_def Let_def)
  qed
  have nf: "findIndex (\<lambda>p. id_p p = i) (mockProducts s) = None"
  proof (rule ccontr)
    assume "findIndex (\<lambda>p. id_p p = i) (mockProducts s) \<noteq> None"
    with a inv val show False
      by (auto simp: updateProduct_unfold setLoading_def Let_def)
  qed
  from a inv val nf have "message a = ''Not Found''"
    by (auto simp: updateProduct_unfold throwApiError_def createApiError_def setLoading_def Let_def)
  with inv val nf
  show "message a = ''Not Found'' \<and> validateProductData d True = [] \<and> 1 \<le> i
        \<and> find (\<lambda>p. id_p p = i) (mockProducts s) = None"
    by (auto simp: invalidId_def findIndex_None_iff)
qed

theorem updateProduct_validates_before_lookup_witness:
  "(1::int) \<le> 99 \<and> find (\<lambda>p. id_p p = 99) (mockProducts init_state) = None
   \<and> validateProductData
        \<lparr> data_name = Some ''ab'', data_description = Absent, data_price = None,
          data_category = None, data_imageUrl = Absent, data_active = None \<rparr> True \<noteq> []
   \<and> fst (updateProduct init_state 0 99
        \<lparr> data_name = Some ''ab'', data_description = Absent, data_price = None,
          data_category = None, data_imageUrl = Absent, data_active = None \<rparr>) =
       Inl (ApiError \<lparr> statusCode = 400, message = ''Validation Failed'',
                        details = Some ''Name must be at least 3 characters'',
                        timestamp = 0, path = ''/api/products'' \<rparr>)
   \<and> fst (updateProduct init_state 0 99 emptyPatch) =
       Inl (ApiError \<lparr> statusCode = 404, message = ''Not Found'',
                        details = Some ''Product with ID 99 not found'',
                        timestamp = 0, path = ''/api/products'' \<rparr>)
   \<and> validateProductData emptyPatch True = []"
proof -
  let ?d = "\<lparr> data_name = Some ''ab'', data_description = Absent, data_price = None,
          data_category = None, data_imageUrl = Absent, data_active = None \<rparr>"
  have nf: "find (\<lambda>p. id_p p = 99) (mockProducts init_state) = None"
    by (simp add: init_state_def find_seed_None)
  have v: "validateProductData ?d True = [''Name must be at least 3 characters'']"
    by (simp add: validateProductData_def nameErrors_def priceErrors_def
      categoryErrors_def descriptionErrors_def trim_def is_space_def)
  from updateProduct_validates_before_lookup [of 99 init_state ?d 0] nf v
  have r: "fst (updateProduct init_state 0 99 ?d) =
       Inl (ApiError \<lparr> statusCode = 400, message = ''Validation Failed'',
                        details = Some ''Name must be at least 3 characters'',
                        timestamp = 0, path = ''/api/products'' \<rparr>)"
    by simp
  have "decimal 99 = ''99''"
    by code_simp
  then have e: "fst (updateProduct init_state 0 99 emptyPatch) =
       Inl (ApiError \<lparr> statusCode = 404, message = ''Not Found'',
                        details = Some ''Product with ID 99 not found'',
                        timestamp = 0, path = ''/api/products'' \<rparr>)"
    using nf [folded findIndex_None_iff]
    by (simp add: updateProduct_unfold invalidId_def validate_emptyPatch_update
        throwApiError_def createApiError_def notFoundDetails_def number_toString_def
        setLoading_def Let_def)
  from updateProduct_validates_before_lookup
    [where i = 99 and s = init_state and d = emptyPatch and now = 0
       and a = "\<lparr> statusCode = 404, message = ''Not Found'',
                   details = Some ''Product with ID 99 not found'',
                   timestamp = 0, path = ''/api/products'' \<rparr>"] e
  have "validateProductData emptyPatch True = []"
    by simp
  with nf v r e show ?thesis by simp
qed

section \<open>Properties of the views\<close>

text \<open>
  C8. In \<^const>\<open>loadProducts\<close> every failed list fetch, an error of the service or the
  time limit, reaches the subscriber as the empty page (no data, \<open>totalItems = 0\<close>,
  \<open>totalPages = 0\<close>, \<open>hasNext\<close> and \<open>hasPrevious\<close> false), and the view then shows no rows;
  so it is over the mock service whenever \<^const>\<open>getProducts\<close> fails. The views put no such
  stage before a mutation: what reaches the subscriber of a deletion, a creation or an
  update is the outcome of the service itself, and a failed deletion leaves the rows and
  the count as they were and reports the error.
\<close>

theorem failed_list_fetch_becomes_empty_page:
  "(isl (timeout_op fetched) \<longrightarrow>
      fst (loadProducts c fetched) =
        Inr \<lparr> data = [], currentPage = 1, pageSize = 10, totalItems = 0, totalPages = 0,
              hasNext = False, hasPrevious = False \<rparr>
      \<and> products (snd (loadProducts c fetched)) = []
      \<and> comp_totalItems (snd (loadProducts c fetched)) = 0
      \<and> \<not> loading (snd (loadProducts c fetched)))
   \<and> (isl (fst (getProducts s (Some filters)
                  (Some \<lparr> page = Some (comp_currentPage c),
                          param_pageSize = Some comp_pageSize \<rparr>))) \<longrightarrow>
        fst (fst (loadProducts_mock c filters s)) =
          Inr \<lparr> data = [], currentPage = 1, pageSize = 10, totalItems = 0, totalPages = 0,
                hasNext = False, hasPrevious = False \<rparr>
        \<and> products (snd (fst (loadProducts_mock c filters s))) = [])
   \<and> fst (comp_deleteProduct c r reload) = r
   \<and> fst (form_createProduct fc r') = r'
   \<and> ((case productId fc of None \<Rightarrow> False | Some i \<Rightarrow> i \<noteq> 0) \<longrightarrow>
        fst (form_updateProduct fc r') = Some r')
   \<and> products (snd (comp_deleteProduct c (Inl e) reload)) = products c
   \<and> comp_totalItems (snd (comp_deleteProduct c (Inl e) reload)) = comp_totalItems c
   \<and> notifications (snd (comp_deleteProduct c (Inl e) reload)) =
       notifications c @ [NotifyError (''Erro ao excluir produto: '' @ error_message e)]"
proof -
  have load: "fst (loadProducts c' (Some (Inl e'))) = Inr emptyPage
              \<and> products (snd (loadProducts c' (Some (Inl e')))) = []
              \<and> comp_totalItems (snd (loadProducts c' (Some (Inl e')))) = 0
              \<and> \<not> loading (snd (loadProducts c' (Some (Inl e'))))" for c' e'
    by (simp add: loadProducts_def loadProducts_catchError_def loadProducts_subscribe_def
        timeout_op_def notify_def emptyPage_def)
  have late: "fst (loadProducts c' None) = Inr emptyPage
              \<and> products (snd (loadProducts c' None)) = []
              \<and> comp_totalItems (snd (loadProducts c' None)) = 0
              \<and> \<not> loading (snd (loadProducts c' None))" for c'
    by (simp add: loadProducts_def loadProducts_catchError_def loadProducts_subscribe_def
        timeout_op_def notify_def emptyPage_def)
  have part1: "isl (timeout_op fetched) \<longrightarrow>
      fst (loadProducts c fetched) = Inr emptyPage
      \<and> products (snd (loadProducts c fetched)) = []
      \<and> comp_totalItems (snd (loadProducts c fetched)) = 0
      \<and> \<not> loading (snd (loadProducts c fetched))"
  proof (cases fetched)
    case None
    with late show ?thesis by simp
  next
    case (Some x)
    show ?thesis
    proof (cases x)
      case (Inl e')
      with Some load show ?thesis by simp
    next
      case (Inr p)
      with Some show ?thesis by (simp add: timeout_op_def)
    qed
  qed
  have part2: "isl (fst (getProducts s (Some filters)
                  (Some \<lparr> page = Some (comp_currentPage c),
                          param_pageSize = Some comp_pageSize \<rparr>))) \<longrightarrow>
        fst (fst (loadProducts_mock c filters s)) = Inr emptyPage
        \<and> products (snd (fst (loadProducts_mock c filters s))) = []"
  proof
    assume "isl (fst (getProducts s (Some filters)
                  (Some \<lparr> page = Some (comp_currentPage c),
                          param_pageSize = Some comp_pageSize \<rparr>)))"
    then obtain e' s' where
      "getProducts s (Some filters)
         (Some \<lparr> page = Some (comp_currentPage c), param_pageSize = Some comp_pageSize \<rparr>)
       = (Inl e', s')"
      by (metis isl_def prod.collapse)
    with load [of c e']
    show "fst (fst (loadProducts_mock c filters s)) = Inr emptyPage
        \<and> products (snd (fst (loadProducts_mock c filters s))) = []"
      by (simp add: loadProducts_mock_def)
  qed
  have part3: "fst (comp_deleteProduct c r reload) = r"
    "fst (form_createProduct fc r') = r'"
    "(case productId fc of None \<Rightarrow> False | Some i \<Rightarrow> i \<noteq> 0) \<longrightarrow>
        fst (form_updateProduct fc r') = Some r'"
    by (simp_all add: comp_deleteProduct_def form_createProduct_def form_updateProduct_def
        Let_def split: option.splits)
  have part4: "products (snd (comp_deleteProduct c (Inl e) reload)) = products c"
    "comp_totalItems (snd (comp_deleteProduct c (Inl e) reload)) = comp_totalItems c"
    "notifications (snd (comp_deleteProduct c (Inl e) reload)) =
       notifications c @ [NotifyError (''Erro ao excluir produto: '' @ error_message e)]"
    by (simp_all add: comp_deleteProduct_def notify_def Let_def)
  from part1 part2 part3 part4 show ?thesis
    by (simp only: emptyPage_def)
qed

theorem failed_list_fetch_becomes_empty_page_witness:
  "isl (timeout_op (None :: (error + product paginatedResponse) option))
   \<and> isl (fst (getProducts init_state (Some \<lparr> filter_category = None, minPrice = None,
                  maxPrice = None, filter_active = None, search = None \<rparr>)
              (Some \<lparr> page = Some (- 1), param_pageSize = Some comp_pageSize \<rparr>)))
   \<and> fst (loadProducts
            \<lparr> products = [(seed1, ''true'')], comp_totalItems = 8, loading = False,
              comp_currentPage = - 1, notifications = [] \<rparr> None) =
       Inr \<lparr> data = [], currentPage = 1, pageSize = 10, totalItems = 0, totalPages = 0,
             hasNext = False, hasPrevious = False \<rparr>
   \<and> products (snd (fst (loadProducts_mock
            \<lparr> products = [(seed1, ''true'')], comp_totalItems = 8, loading = False,
              comp_currentPage = - 1, notifications = [] \<rparr>
            \<lparr> filter_category = None, minPrice = None, maxPrice = None,
              filter_active = None, search = None \<rparr> init_state))) = []
   \<and> fst (comp_deleteProduct
            \<lparr> products = [(seed1, ''true'')], comp_totalItems = 8, loading = False,
              comp_currentPage = - 1, notifications = [] \<rparr>
            (fst (deleteProduct init_state 0 0)) None) =
       Inl (ApiError \<lparr> statusCode = 400, message = ''Bad Request'',
                        details = Some ''Invalid product ID'', timestamp = 0,
                        path = ''/api/products'' \<rparr>)
   \<and> fst (form_updateProduct
            \<lparr> form_loading = True, productId = Some 1, form_notifications = [],
              navigatedTo = None \<rparr>
            (Inl (JsError (''Dados inv'' @ [CHR 0xE1] @ ''lidos fornecidos'')))) =
       Some (Inl (JsError (''Dados inv'' @ [CHR 0xE1] @ ''lidos fornecidos'')))"
proof -
  let ?fc = "\<lparr> form_loading = True, productId = Some 1, form_notifications = [],
              navigatedTo = None \<rparr>"
  let ?c = "\<lparr> products = [(seed1, ''true'')], comp_totalItems = 8, loading = False,
              comp_currentPage = - 1, notifications = [] \<rparr>"
  let ?f = "\<lparr> filter_category = None, minPrice = None, maxPrice = None,
              filter_active = None, search = None \<rparr>"
  have a: "isl (timeout_op (None :: (error + product paginatedResponse) option))"
    by (simp add: timeout_op_def)
  have b: "isl (fst (getProducts init_state (Some ?f)
              (Some \<lparr> page = Some (- 1), param_pageSize = Some comp_pageSize \<rparr>)))"
    by (simp add: getProducts_def or_default_def Let_def)
  have d: "fst (deleteProduct init_state 0 0) =
       Inl (ApiError \<lparr> statusCode = 400, message = ''Bad Request'',
                        details = Some ''Invalid product ID'', timestamp = 0,
                        path = ''/api/products'' \<rparr>)"
    by (simp add: deleteProduct_unfold invalidId_def throwApiError_def createApiError_def Let_def)
  note t = failed_list_fetch_becomes_empty_page
    [where fetched = None and c = ?c and s = init_state and filters = ?f
       and r = "fst (deleteProduct init_state 0 0)" and reload = None and fc = ?fc
       and r' = "Inl (JsError (''Dados inv'' @ [CHR 0xE1] @ ''lidos fornecidos''))"]
  from t a have "fst (loadProducts ?c None) =
       Inr \<lparr> data = [], currentPage = 1, pageSize = 10, totalItems = 0, totalPages = 0,
             hasNext = False, hasPrevious = False \<rparr>"
    by blast
  moreover from t b have "products (snd (fst (loadProducts_mock ?c ?f init_state))) = []"
    by simp
  moreover from t d have "fst (comp_deleteProduct ?c (fst (deleteProduct init_state 0 0)) None) =
       Inl (ApiError \<lparr> statusCode = 400, message = ''Bad Request'',
                        details = Some ''Invalid product ID'', timestamp = 0,
                        path = ''/api/products'' \<rparr>)"
    by simp
  moreover from t have "fst (form_updateProduct ?fc
            (Inl (JsError (''Dados inv'' @ [CHR 0xE1] @ ''lidos fornecidos'')))) =
       Some (Inl (JsError (''Dados inv'' @ [CHR 0xE1] @ ''lidos fornecidos'')))"
    by simp
  ultimately show ?thesis using a b by simp
qed

end
